theory Spec2Isabelle
  imports Main
begin

section \<open>Values exchanged with the framework\<close>

text \<open>
  A parsed request body or a collaborator's result: the value \<open>JSON.parse\<close> or
  \<open>YAML.load\<close> hands to the framework. A number is either integer-valued
  (\<open>JInt\<close>) or not (\<open>JFrac\<close>, whose value no schema of the routes looks at).
  An object is the list of its members; \<open>map_of\<close> reads a member.
\<close>

datatype json =
    JNull
  | JBool bool
  | JInt int
  | JFrac
  | JStr string
  | JArr "json list"
  | JObj "(string \<times> json) list"

text \<open>
  A thrown JavaScript error object with the properties the server and the framework read
  or write: \<open>error.code\<close> (of a \<open>FastifyError\<close>), the message, \<open>err.statusCode\<close>, and
  \<open>error.status\<close> (here \<open>status_prop\<close>).
\<close>

record js_error =
  code :: "string option"
  message :: string
  statusCode :: "nat option"
  status_prop :: "nat option"

type_synonym public_id = string
type_synonym restaurant_id = nat
type_synonym user_id = nat

text \<open>The body of \<open>POST /\<close> as the handler reads it: \<open>request.body.name\<close>,
  \<open>request.body.price\<close>, \<open>request.body.description\<close>.\<close>

record item_body =
  name :: string
  price :: int
  description :: "string option"

text \<open>The argument of \<open>itemControl.create\<close>: the body's fields and \<open>restaurantId\<close>.\<close>

record new_item = item_body +
  restaurantId :: restaurant_id

text \<open>An item as \<open>itemControl.get\<close> returns it (source field \<open>id\<close>).\<close>

record item = new_item +
  item_id :: public_id

text \<open>The restaurant of a user (source field \<open>id\<close>) and the user record that
  \<open>userControl.get\<close> returns; \<open>restaurant\<close> is nullable.\<close>

record restaurant =
  restaurant_id :: restaurant_id

record user =
  user_id :: user_id
  restaurant :: "restaurant option"

text \<open>
  What \<open>request.user\<close> holds: \<open>null\<close> until a token is verified; the callable
  \<open>() => userControl.get(id)\<close>, kept as the id it closes over; or a user record.
\<close>

datatype user_slot = NoUser | Deferred user_id | Resolved user

text \<open>The parts of a \<open>FastifyRequest\<close> the server and the item routes read.\<close>

record request =
  token :: "string option"
  accept :: "string option"
  user :: user_slot
  params_id :: public_id
  body :: item_body

section \<open>The reply\<close>

datatype payload =
    PError js_error
  | PText string
  | PItem item
  | PItems "item list"
  | PJson json
  | PFile string

text \<open>
  The response under construction: its status (200 until it is set), whether the handler
  has set a status with \<open>reply.code\<close>, its content type (\<open>reply.type\<close>) and, once
  \<open>reply.send\<close> or \<open>reply.sendFile\<close> has run, the payload that went out. What is sent
  stays sent: the framework ignores a second send, and a status set afterwards reaches
  nobody.
\<close>

record reply =
  status :: nat
  hasStatusCode :: bool
  contentType :: "string option"
  sent :: "payload option"

definition fresh_reply :: reply where
  "fresh_reply = \<lparr>status = 200, hasStatusCode = False, contentType = None, sent = None\<rparr>"

definition reply_code :: "nat \<Rightarrow> reply \<Rightarrow> reply" where
  "reply_code c rep =
     (case sent rep of Some _ \<Rightarrow> rep | None \<Rightarrow> rep\<lparr>status := c, hasStatusCode := True\<rparr>)"

definition reply_type :: "string \<Rightarrow> reply \<Rightarrow> reply" where
  "reply_type t rep = (case sent rep of Some _ \<Rightarrow> rep | None \<Rightarrow> rep\<lparr>contentType := Some t\<rparr>)"

text \<open>
  Sending an \<open>Error\<close> goes through the framework's default error handler, which decides
  the status in two steps. First it overwrites the status of the response:
  \<^verbatim>\<open>
  let statusCode = res.statusCode
  statusCode = (statusCode >= 400) ? statusCode : 500
  if (error.status >= 400) { statusCode = error.status }
  else if (error.statusCode >= 400) { statusCode = error.statusCode }
  res.statusCode = statusCode
  \<close>
  so a status of the error's own that is at least 400 wins over a status set with
  \<open>reply.code\<close>, and a status below 400 set beforehand becomes 500.
\<close>

definition set_error_status :: "js_error \<Rightarrow> nat \<Rightarrow> nat" where
  "set_error_status e st =
     (let base = (if 400 \<le> st then st else 500);
          from_statusCode = (case statusCode e of
                               Some c \<Rightarrow> (if 400 \<le> c then c else base)
                             | None \<Rightarrow> base)
      in case status_prop e of
           Some c \<Rightarrow> (if 400 \<le> c then c else from_statusCode)
         | None \<Rightarrow> from_statusCode)"

text \<open>
  Then, when the handler has set no status,
  \<^verbatim>\<open>
  const statusCode = error.statusCode || error.status
  reply.code(statusCode >= 400 ? statusCode : 500)
  \<close>
\<close>

definition error_status :: "js_error \<Rightarrow> nat" where
  "error_status e =
     (case (case statusCode e of
              Some c \<Rightarrow> (if c \<noteq> 0 then Some c else status_prop e)
            | None \<Rightarrow> status_prop e) of
        Some c \<Rightarrow> (if 400 \<le> c then c else 500)
      | None \<Rightarrow> 500)"

text \<open>The status with which a payload goes out of a reply not yet sent:
  \<open>if (!reply[kReplyHasStatusCode] || reply.statusCode === 200)\<close> guards the second step.\<close>

fun payload_status :: "payload \<Rightarrow> reply \<Rightarrow> nat" where
  "payload_status (PError e) rep =
     (if \<not> hasStatusCode rep \<or> set_error_status e (status rep) = 200 then error_status e
      else set_error_status e (status rep))"
| "payload_status p rep = status rep"

text \<open>\<open>hasStatusCode\<close> is left as the handler set it: after a send nothing reads it.\<close>

definition reply_send :: "payload \<Rightarrow> reply \<Rightarrow> reply" where
  "reply_send p rep =
     (case sent rep of
        Some _ \<Rightarrow> rep
      | None \<Rightarrow> rep\<lparr>status := payload_status p rep, sent := Some p\<rparr>)"

section \<open>Handlers as state transformers that may throw\<close>

text \<open>
  The persistence operations a handler invoked, in order. The collaborators themselves
  (\<open>itemControl\<close>, \<open>statsControl\<close>) are parameters of the handlers.
\<close>

datatype pcall =
    CallGetAllFrom restaurant_id
  | CallGet public_id
  | CallCreate new_item
  | CallDel public_id
  | CallMostSold restaurant_id
  | CallLeastSold restaurant_id

text \<open>
  Everything an \<open>async (request, reply)\<close> function can touch: the request (whose
  \<open>user\<close> the token plugin assigns), the reply, the persisted state \<open>db\<close> behind the
  collaborators, and the trace of persistence calls.
\<close>

record 'db ctx =
  request :: request
  reply :: reply
  db :: 'db
  calls :: "pcall list"

text \<open>An awaited computation: it either throws (\<open>Inl\<close>) or returns (\<open>Inr\<close>).\<close>

type_synonym ('s, 'a) io = "'s \<Rightarrow> (js_error + 'a) \<times> 's"

definition return :: "'a \<Rightarrow> ('s, 'a) io" where
  "return a = (\<lambda>s. (Inr a, s))"

definition throw :: "js_error \<Rightarrow> ('s, 'a) io" where
  "throw e = (\<lambda>s. (Inl e, s))"

text \<open>\<open>const a = await m; f a\<close>: a throw of \<open>m\<close> skips \<open>f\<close>.\<close>

definition await :: "('s, 'a) io \<Rightarrow> ('a \<Rightarrow> ('s, 'b) io) \<Rightarrow> ('s, 'b) io" where
  "await m f = (\<lambda>s. case m s of (Inl e, s') \<Rightarrow> (Inl e, s') | (Inr a, s') \<Rightarrow> f a s')"

definition send :: "payload \<Rightarrow> ('db ctx, unit) io" where
  "send p = (\<lambda>s. (Inr (), s\<lparr>reply := reply_send p (reply s)\<rparr>))"

section \<open>The authentication gate\<close>

text \<open>
  \<open>fastify.authenticate\<close>. \<open>request.jwtVerify\<close> belongs to the token plugin and is a
  parameter: it throws, or it returns with the request as the plugin leaves it.
  \<^verbatim>\<open>
  try { await request.jwtVerify(); }
  catch (err) {
    const error = err as FastifyError;
    switch (error.code) {
      case "FST_JWT_AUTHORIZATION_TOKEN_EXPIRED": return reply.code(403).send(error);
      default: return reply.code(401).send(error);
    }
  }
  \<close>
\<close>

definition authenticate :: "(request \<Rightarrow> js_error + request) \<Rightarrow> ('db ctx, unit) io" where
  "authenticate jwtVerify = (\<lambda>s.
     case jwtVerify (request s) of
       Inr req \<Rightarrow> (Inr (), s\<lparr>request := req\<rparr>)
     | Inl error \<Rightarrow>
         (if code error = Some ''FST_JWT_AUTHORIZATION_TOKEN_EXPIRED''
          then (Inr (), s\<lparr>reply := reply_send (PError error) (reply_code 403 (reply s))\<rparr>)
          else (Inr (), s\<lparr>reply := reply_send (PError error) (reply_code 401 (reply s))\<rparr>)))"

section \<open>The token plugin\<close>

text \<open>The decoded token: the plugin passes it to \<open>formatUser\<close>, which reads \<open>user.id\<close>.\<close>

record jwt_payload =
  payload_id :: user_id

text \<open>\<open>formatUser: (user) => () => userControl.get(user.id)\<close>: the result is the
  inner function, not what it would return.\<close>

definition formatUser :: "jwt_payload \<Rightarrow> user_slot" where
  "formatUser decoded = Deferred (payload_id decoded)"

text \<open>
  \<open>request.jwtVerify\<close> as the plugin is configured here: the signature and expiry check
  \<open>verify\<close> is the plugin's own and a parameter; on success the plugin assigns
  \<open>request.user = formatUser(decoded)\<close>.
\<close>

definition plugin_jwtVerify :: "(string option \<Rightarrow> js_error + jwt_payload) \<Rightarrow> request \<Rightarrow> js_error + request" where
  "plugin_jwtVerify verify req =
     (case verify (token req) of
        Inl e \<Rightarrow> Inl e
      | Inr decoded \<Rightarrow> Inr (req\<lparr>user := formatUser decoded\<rparr>))"

definition type_error :: "string \<Rightarrow> js_error" where
  "type_error msg = \<lparr>code = None, message = msg, statusCode = None, status_prop = None\<rparr>"

text \<open>Calling what \<open>request.user\<close> holds, \<open>request.user()\<close>, with \<open>userControl.get\<close> as a
  parameter: only the callable can be called.\<close>

fun call_user :: "(user_id \<Rightarrow> js_error + user) \<Rightarrow> user_slot \<Rightarrow> js_error + user" where
  "call_user userControl_get (Deferred i) = userControl_get i"
| "call_user userControl_get slot = Inl (type_error ''request.user is not a function'')"

text \<open>
  The property read \<open>request.user.restaurant\<close>. On \<open>null\<close> it throws; on the callable
  it is \<open>undefined\<close>, as a function object has no such property; on a record it is the
  record's nullable field. \<open>None\<close> stands for both \<open>null\<close> and \<open>undefined\<close>.
\<close>

fun restaurant_of :: "user_slot \<Rightarrow> js_error + restaurant option" where
  "restaurant_of NoUser = Inl (type_error ''Cannot read properties of null (reading restaurant)'')"
| "restaurant_of (Deferred i) = Inr None"
| "restaurant_of (Resolved u) = Inr (restaurant u)"

text \<open>\<open>request.user.restaurant!.id\<close>: the \<open>!\<close> is erased at run time, so a missing
  restaurant makes the read of \<open>id\<close> throw.\<close>

definition caller_restaurant_id :: "('db ctx, restaurant_id) io" where
  "caller_restaurant_id = (\<lambda>s.
     case restaurant_of (user (request s)) of
       Inl e \<Rightarrow> (Inl e, s)
     | Inr None \<Rightarrow> (Inl (type_error ''Cannot read properties of undefined (reading id)''), s)
     | Inr (Some r) \<Rightarrow> (Inr (restaurant_id r), s))"

section \<open>The item routes\<close>

text \<open>
  The collaborators \<open>itemControl\<close> and \<open>statsControl\<close> are imported by the routes and are
  parameters here. Each operation may throw and may change the persisted state.
\<close>

record 'db controllers =
  getAllFrom :: "restaurant_id \<Rightarrow> 'db \<Rightarrow> (js_error + item list) \<times> 'db"
  get :: "public_id \<Rightarrow> 'db \<Rightarrow> (js_error + item) \<times> 'db"
  create :: "new_item \<Rightarrow> 'db \<Rightarrow> (js_error + public_id) \<times> 'db"
  del :: "public_id \<Rightarrow> 'db \<Rightarrow> (js_error + unit) \<times> 'db"
  mostSold :: "restaurant_id \<Rightarrow> 'db \<Rightarrow> (js_error + json) \<times> 'db"
  leastSold :: "restaurant_id \<Rightarrow> 'db \<Rightarrow> (js_error + json) \<times> 'db"

text \<open>Awaiting a persistence operation: it runs on the persisted state and is recorded.\<close>

definition invoke :: "pcall \<Rightarrow> ('db \<Rightarrow> (js_error + 'a) \<times> 'db) \<Rightarrow> ('db ctx, 'a) io" where
  "invoke c f = (\<lambda>s. case f (db s) of (r, d) \<Rightarrow> (r, s\<lparr>db := d, calls := calls s @ [c]\<rparr>))"

text \<open>Modelled from the spec: the class \<open>APIError\<close> of \<open>api_error\<close>, which the routes
  import: a typed error carrying a message and an explicit HTTP status.\<close>

definition APIError :: "string \<Rightarrow> nat \<Rightarrow> js_error" where
  "APIError msg st = \<lparr>code = None, message = msg, statusCode = Some st, status_prop = None\<rparr>"

definition no_access_message :: string where
  "no_access_message = ''You don't have access to this item''"

text \<open>
  Every handler starts with \<open>await fastify.authenticateWithRestaurant(request, reply)\<close>;
  the decoration is not among the sources, so the handlers take it as the parameter
  \<open>gate\<close>.

  \<open>GET /\<close>:
  \<^verbatim>\<open>
  const menu = await itemControl.getAllFrom(request.user.restaurant!.id);
  return reply.send(menu);
  \<close>
\<close>

definition route_get_items :: "('db ctx, unit) io \<Rightarrow> 'db controllers \<Rightarrow> ('db ctx, unit) io" where
  "route_get_items gate ctl =
     await gate (\<lambda>_.
     await caller_restaurant_id (\<lambda>r.
     await (invoke (CallGetAllFrom r) (getAllFrom ctl r)) (\<lambda>menu.
     send (PItems menu))))"

text \<open>
  \<open>GET /:id\<close>:
  \<^verbatim>\<open>
  const itemId = request.params.id;
  const item = await itemControl.get(itemId);
  if (item.restaurantId !== request.user.restaurant!.id) {
    throw new APIError("You don't have access to this item", 403);
  }
  return reply.send(item);
  \<close>
\<close>

definition route_get_item :: "('db ctx, unit) io \<Rightarrow> 'db controllers \<Rightarrow> ('db ctx, unit) io" where
  "route_get_item gate ctl =
     await gate (\<lambda>_ s.
     let itemId = params_id (request s) in
     (await (invoke (CallGet itemId) (get ctl itemId)) (\<lambda>item.
      await caller_restaurant_id (\<lambda>r.
      if restaurantId item \<noteq> r then throw (APIError no_access_message 403)
      else send (PItem item)))) s)"

text \<open>
  \<open>POST /\<close>:
  \<^verbatim>\<open>
  const itemId = await itemControl.create({
    name: request.body.name, price: request.body.price,
    description: request.body.description,
    restaurantId: request.user.restaurant!.id });
  return reply.send(await itemControl.get(itemId));
  \<close>
\<close>

definition route_post_item :: "('db ctx, unit) io \<Rightarrow> 'db controllers \<Rightarrow> ('db ctx, unit) io" where
  "route_post_item gate ctl =
     await gate (\<lambda>_ s.
     let b = body (request s) in
     (await caller_restaurant_id (\<lambda>r.
      let fields = \<lparr>name = name b, price = price b, description = description b,
                     restaurantId = r\<rparr> in
      await (invoke (CallCreate fields) (create ctl fields)) (\<lambda>itemId.
      await (invoke (CallGet itemId) (get ctl itemId)) (\<lambda>item.
      send (PItem item))))) s)"

text \<open>
  \<open>DELETE /:id\<close>: as \<open>GET /:id\<close> up to the ownership check, then
  \<^verbatim>\<open>
  await itemControl.del(itemId);
  return reply.send("Item deleted successfully");
  \<close>
\<close>

definition route_delete_item :: "('db ctx, unit) io \<Rightarrow> 'db controllers \<Rightarrow> ('db ctx, unit) io" where
  "route_delete_item gate ctl =
     await gate (\<lambda>_ s.
     let itemId = params_id (request s) in
     (await (invoke (CallGet itemId) (get ctl itemId)) (\<lambda>item.
      await caller_restaurant_id (\<lambda>r.
      if restaurantId item \<noteq> r then throw (APIError no_access_message 403)
      else await (invoke (CallDel itemId) (del ctl itemId)) (\<lambda>_.
           send (PText ''Item deleted successfully''))))) s)"

text \<open>\<open>GET /best-seller\<close> and \<open>GET /worst-seller\<close>:
  \<open>reply.send(await statsControl.mostSold(request.user!.restaurant!.id))\<close>.\<close>

definition route_best_seller :: "('db ctx, unit) io \<Rightarrow> 'db controllers \<Rightarrow> ('db ctx, unit) io" where
  "route_best_seller gate ctl =
     await gate (\<lambda>_.
     await caller_restaurant_id (\<lambda>r.
     await (invoke (CallMostSold r) (mostSold ctl r)) (\<lambda>stats.
     send (PJson stats))))"

definition route_worst_seller :: "('db ctx, unit) io \<Rightarrow> 'db controllers \<Rightarrow> ('db ctx, unit) io" where
  "route_worst_seller gate ctl =
     await gate (\<lambda>_.
     await caller_restaurant_id (\<lambda>r.
     await (invoke (CallLeastSold r) (leastSold ctl r)) (\<lambda>stats.
     send (PJson stats))))"

definition item_routes :: "('db ctx, unit) io \<Rightarrow> 'db controllers \<Rightarrow> ('db ctx, unit) io list" where
  "item_routes gate ctl =
     [route_get_items gate ctl, route_get_item gate ctl, route_post_item gate ctl,
      route_delete_item gate ctl, route_best_seller gate ctl, route_worst_seller gate ctl]"

text \<open>
  The framework around a handler: it starts from a fresh reply, and an error the handler
  throws is sent as the response (unless one went out already).
\<close>

definition start :: "request \<Rightarrow> 'db \<Rightarrow> 'db ctx" where
  "start req d = \<lparr>request = req, reply = fresh_reply, db = d, calls = []\<rparr>"

definition serve :: "('db ctx, unit) io \<Rightarrow> 'db ctx \<Rightarrow> 'db ctx" where
  "serve handler s =
     (case handler s of
        (Inl e, s') \<Rightarrow> s'\<lparr>reply := reply_send (PError e) (reply s')\<rparr>
      | (Inr _, s') \<Rightarrow> s')"

text \<open>
  Modelled from the spec: \<open>authenticateWithRestaurant\<close>, the decoration the item routes
  call, which is not among the sources. It is composed on top of the base gate and
  additionally requires \<open>request.user.restaurant\<close> to be non-null; when the user has no
  associated restaurant it fails with Forbidden (403) and a descriptive message. The spec
  gives no wording for the message.
\<close>

definition no_restaurant_message :: string where
  "no_restaurant_message = ''User has no associated restaurant''"

definition authenticateWithRestaurant :: "(request \<Rightarrow> js_error + request) \<Rightarrow> ('db ctx, unit) io" where
  "authenticateWithRestaurant jwtVerify =
     await (authenticate jwtVerify) (\<lambda>_ s.
       case restaurant_of (user (request s)) of
         Inl e \<Rightarrow> (Inl e, s)
       | Inr None \<Rightarrow> (Inl (APIError no_restaurant_message 403), s)
       | Inr (Some r) \<Rightarrow> (Inr (), s))"

section \<open>The persistence collaborator\<close>

text \<open>
  Modelled from the spec: the persistence layer behind \<open>itemControl\<close>, which is not among
  the sources. It exposes create, get, list and delete operations keyed by opaque public
  ids: \<open>create(fields)\<close> returns the id of the new item, \<open>get(itemId)\<close> returns the
  item, and an unmatched id fails with a not-found error. \<open>newId\<close>, which draws the
  16-character public id, is a parameter. The statistics are not specified.
\<close>

type_synonym store = "(public_id \<times> item) list"

definition not_found :: js_error where
  "not_found = \<lparr>code = None, message = ''Item not found'', statusCode = Some 404, status_prop = None\<rparr>"

definition stored :: "new_item \<Rightarrow> public_id \<Rightarrow> item" where
  "stored f i = \<lparr>name = name f, price = price f, description = description f,
                 restaurantId = restaurantId f, item_id = i\<rparr>"

definition store_controllers :: "(store \<Rightarrow> public_id) \<Rightarrow> store controllers" where
  "store_controllers newId =
     \<lparr>getAllFrom = (\<lambda>r d. (Inr (filter (\<lambda>it. restaurantId it = r) (map snd d)), d)),
      get = (\<lambda>i d. case map_of d i of None \<Rightarrow> (Inl not_found, d) | Some it \<Rightarrow> (Inr it, d)),
      create = (\<lambda>f d. let i = newId d in (Inr i, (i, stored f i) # d)),
      del = (\<lambda>i d. case map_of d i of
                      None \<Rightarrow> (Inl not_found, d)
                    | Some _ \<Rightarrow> (Inr (), filter (\<lambda>kv. fst kv \<noteq> i) d)),
      mostSold = (\<lambda>r d. (Inr JNull, d)),
      leastSold = (\<lambda>r d. (Inr JNull, d))\<rparr>"

text \<open>
  Modelled from the spec: what the routes assume of any persistence layer, whatever its
  implementation. The id that \<open>create\<close> returns is the key under which \<open>get\<close> finds
  the item just created, with the fields given; \<open>get\<close> only reads.
\<close>

definition persists :: "'db controllers \<Rightarrow> bool" where
  "persists ctl \<longleftrightarrow>
     (\<forall>f d i d'. create ctl f d = (Inr i, d') \<longrightarrow> get ctl i d' = (Inr (stored f i), d'))"

section \<open>Serving the API document\<close>

text \<open>
  What \<open>request.type(types)\<close> of the accepts plugin returns: \<open>false\<close> when nothing
  matches, the best match, or an array.
\<close>

datatype negotiated = NoMatch | One string | Many "string list"

definition openapi_supported_types :: "string list" where
  "openapi_supported_types =
     [''application/json'', ''application/yaml'', ''text/yaml'', ''text/yml'']"

text \<open>
  \<open>request.type\<close>: without an \<open>Accept\<close> header the plugin returns the first of the
  given types, and all requested types (\<open>*/*\<close>) when given none. With a header it runs
  the quality-value negotiation, which is the plugin's and a parameter.
\<close>

definition request_type :: "(string \<Rightarrow> string list \<Rightarrow> negotiated) \<Rightarrow> request \<Rightarrow> string list \<Rightarrow> negotiated" where
  "request_type negotiate req types =
     (case accept req of
        None \<Rightarrow> (case types of [] \<Rightarrow> Many [''*/*''] | t # _ \<Rightarrow> One t)
      | Some h \<Rightarrow>
          (if h = [] then (case types of [] \<Rightarrow> Many [''*/*''] | t # _ \<Rightarrow> One t)
           else negotiate h types))"

text \<open>\<open>x || "application/json"\<close>: \<open>false\<close> and the empty string are falsy, an array is not.\<close>

fun or_json :: "negotiated \<Rightarrow> negotiated" where
  "or_json NoMatch = One ''application/json''"
| "or_json (One t) = (if t = [] then One ''application/json'' else One t)"
| "or_json (Many ts) = Many ts"

text \<open>\<open>Array.isArray(validType) ? validType[0] : validType\<close>; \<open>None\<close> is \<open>undefined\<close>, the
  first entry of an empty array.\<close>

fun first_or_self :: "negotiated \<Rightarrow> string option" where
  "first_or_self (Many []) = None"
| "first_or_self (Many (t # ts)) = Some t"
| "first_or_self (One t) = Some t"
| "first_or_self NoMatch = None"

definition selected_type :: "(string \<Rightarrow> string list \<Rightarrow> negotiated) \<Rightarrow> request \<Rightarrow> string option" where
  "selected_type negotiate req =
     first_or_self (or_json (request_type negotiate req openapi_supported_types))"

text \<open>
  The module state the document routes read: the phase flag \<open>import.meta.env.PROD\<close> and
  the two strings \<open>openAPIJson\<close> and \<open>openAPIYaml\<close>, assigned once after
  \<open>fastify.ready()\<close> outside production.
\<close>

record server_env =
  env_PROD :: bool
  openAPIJson :: string
  openAPIYaml :: string

text \<open>
  \<open>GET /openapi\<close>:
  \<^verbatim>\<open>
  const validType = request.type([...]) || "application/json";
  const type = Array.isArray(validType) ? validType[0] : validType;
  if (type === "application/json") {
    if (import.meta.env.PROD) { return reply.sendFile("/public/openapi.json"); }
    else { return reply.type("application/json").send(openAPIJson); }
  } else {
    if (import.meta.env.PROD) { return reply.sendFile("/public/openapi.yaml"); }
    else { return reply.type("text/yaml").send(openAPIYaml); }
  }
  \<close>
\<close>

definition openapi_handler :: "(string \<Rightarrow> string list \<Rightarrow> negotiated) \<Rightarrow> server_env \<Rightarrow> request \<Rightarrow> reply \<Rightarrow> reply" where
  "openapi_handler negotiate env req rep =
     (if selected_type negotiate req = Some ''application/json''
      then (if env_PROD env then reply_send (PFile ''/public/openapi.json'') rep
            else reply_send (PText (openAPIJson env)) (reply_type ''application/json'' rep))
      else (if env_PROD env then reply_send (PFile ''/public/openapi.yaml'') rep
            else reply_send (PText (openAPIYaml env)) (reply_type ''text/yaml'' rep)))"

text \<open>\<open>GET /openapi/json\<close> and \<open>GET /openapi/yaml\<close> ignore the request:
  \<^verbatim>\<open>
  if (import.meta.env.PROD) { return reply.sendFile("/public/openapi.json"); }
  else { return reply.type("application/json").send(openAPIJson); }
  \<close>
  and the same with \<open>/public/openapi.yaml\<close>, \<open>text/yaml\<close> and \<open>openAPIYaml\<close>.\<close>

definition openapi_json_handler :: "server_env \<Rightarrow> request \<Rightarrow> reply \<Rightarrow> reply" where
  "openapi_json_handler env req rep =
     (if env_PROD env then reply_send (PFile ''/public/openapi.json'') rep
      else reply_send (PText (openAPIJson env)) (reply_type ''application/json'' rep))"

definition openapi_yaml_handler :: "server_env \<Rightarrow> request \<Rightarrow> reply \<Rightarrow> reply" where
  "openapi_yaml_handler env req rep =
     (if env_PROD env then reply_send (PFile ''/public/openapi.yaml'') rep
      else reply_send (PText (openAPIYaml env)) (reply_type ''text/yaml'' rep))"

text \<open>
  The body that goes out: a file payload is read by the static-file plugin from the
  files on disk, any other payload is the body itself.
\<close>

fun served_body :: "(string \<Rightarrow> string option) \<Rightarrow> payload option \<Rightarrow> payload option" where
  "served_body files (Some (PFile path)) = map_option PText (files path)"
| "served_body files p = p"

section \<open>Parsing YAML bodies\<close>

definition yaml_content_types :: "string list" where
  "yaml_content_types = [''application/yaml'', ''application/yml'', ''text/yaml'', ''text/yml'']"

text \<open>
  The content type parser registered for these types. \<open>YAML.load\<close> is the library's and
  a parameter; it throws on text that is not YAML.
  \<^verbatim>\<open>
  try { done(null, YAML.load(body as string)); }
  catch (err: any) { err.statusCode = 400; done(err, undefined); }
  \<close>
\<close>

definition yaml_parser :: "(string \<Rightarrow> js_error + json) \<Rightarrow> string \<Rightarrow> js_error + json" where
  "yaml_parser YAML_load content =
     (case YAML_load content of
        Inr v \<Rightarrow> Inr v
      | Inl err \<Rightarrow> Inl (err\<lparr>statusCode := Some 400\<rparr>))"

text \<open>
  The framework picks the parser by content type: the parser above for the YAML types,
  its own JSON parser (with \<open>JSON.parse\<close> a parameter, a failure of which it marks 400 as
  well) for \<open>application/json\<close>; \<open>other\<close> stands for the parsers of the form and
  multipart plugins and for the refusal of unknown types.
\<close>

definition parse_body :: "(string \<Rightarrow> js_error + json) \<Rightarrow> (string \<Rightarrow> js_error + json) \<Rightarrow> (string \<Rightarrow> string \<Rightarrow> js_error + json) \<Rightarrow> string \<Rightarrow> string \<Rightarrow> js_error + json" where
  "parse_body JSON_parse YAML_load other ct content =
     (if ct \<in> set yaml_content_types then yaml_parser YAML_load content
      else if ct = ''application/json'' then
        (case JSON_parse content of Inr v \<Rightarrow> Inr v | Inl err \<Rightarrow> Inl (err\<lparr>statusCode := Some 400\<rparr>))
      else other ct content)"

text \<open>A request whose body cannot be parsed never reaches a handler: the framework sends
  the parser's error on the fresh reply.\<close>

definition body_parse_response :: "js_error + json \<Rightarrow> reply option" where
  "body_parse_response r =
     (case r of Inl err \<Rightarrow> Some (reply_send (PError err) fresh_reply) | Inr v \<Rightarrow> None)"

section \<open>Validating the body of \<open>POST /\<close>\<close>

text \<open>
  The framework validates the request body against the schema of the route before it calls
  the handler. The validator is the framework's; what follows is its reading of the
  keywords that the body schema of \<open>POST /\<close> uses: \<open>type\<close> (string, integer),
  \<open>minLength\<close>, \<open>maxLength\<close>, \<open>minimum\<close>, \<open>default\<close>, \<open>properties\<close>, \<open>required\<close>,
  \<open>additionalProperties\<close>.
\<close>

datatype prop_type = TString | TInteger

record prop_schema =
  ptype :: prop_type
  minLength :: "nat option"
  maxLength :: "nat option"
  minimum :: "int option"
  default_value :: "json option"

record object_schema =
  properties :: "(string \<times> prop_schema) list"
  required :: "string list"
  additionalProperties :: bool

text \<open>The \<open>schema.body\<close> of \<open>POST /\<close>, keyword by keyword.\<close>

definition post_body_schema :: object_schema where
  "post_body_schema =
     \<lparr>properties =
        [(''name'', \<lparr>ptype = TString, minLength = Some 3, maxLength = Some 255,
                     minimum = None, default_value = None\<rparr>),
         (''price'', \<lparr>ptype = TInteger, minLength = None, maxLength = None,
                      minimum = Some 0, default_value = Some (JInt 0)\<rparr>),
         (''description'', \<lparr>ptype = TString, minLength = None, maxLength = Some 255,
                            minimum = None, default_value = None\<rparr>)],
      required = [''name'', ''price''],
      additionalProperties = False\<rparr>"

text \<open>
  The options of the validator that bear on this schema. \<open>coerceTypes\<close> is the validator's
  table of type coercions, a parameter: for a value that is not of the wanted type it gives
  the coerced value, if there is one.
\<close>

record ajv_options =
  coerceTypes :: "prop_type \<Rightarrow> json \<Rightarrow> json option"
  useDefaults :: bool
  removeAdditional :: bool

text \<open>
  The server builds the framework with \<open>ajv: {customOptions: {keywords: ["media"]},
  plugins: [...]}\<close>. The custom options are laid over the framework's defaults, which
  therefore stay in force: types are coerced, defaults are assigned, and additional
  properties are removed where a schema says \<open>additionalProperties: false\<close>.
\<close>

definition fastify_ajv_options :: "(prop_type \<Rightarrow> json \<Rightarrow> json option) \<Rightarrow> ajv_options" where
  "fastify_ajv_options coerce = \<lparr>coerceTypes = coerce, useDefaults = True, removeAdditional = True\<rparr>"

fun has_type :: "prop_type \<Rightarrow> json \<Rightarrow> bool" where
  "has_type TString (JStr s) = True"
| "has_type TInteger (JInt n) = True"
| "has_type t v = False"

text \<open>The \<open>type\<close> keyword: a value of the type passes as it is; any other value passes
  as its coercion, if the table has one of the type.\<close>

definition typed :: "(prop_type \<Rightarrow> json \<Rightarrow> json option) \<Rightarrow> prop_type \<Rightarrow> json \<Rightarrow> json option" where
  "typed coerce t v =
     (if has_type t v then Some v
      else case coerce t v of
             None \<Rightarrow> None
           | Some v' \<Rightarrow> if has_type t v' then Some v' else None)"

text \<open>\<open>minLength\<close> and \<open>maxLength\<close> constrain strings, \<open>minimum\<close> constrains numbers.
  A string is the list of its characters; \<open>length\<close> counts them, as the validator does.\<close>

fun within_bounds :: "prop_schema \<Rightarrow> json \<Rightarrow> bool" where
  "within_bounds ps (JStr s) =
     ((case minLength ps of None \<Rightarrow> True | Some l \<Rightarrow> l \<le> length s) \<and>
      (case maxLength ps of None \<Rightarrow> True | Some u \<Rightarrow> length s \<le> u))"
| "within_bounds ps (JInt n) = (case minimum ps of None \<Rightarrow> True | Some m \<Rightarrow> m \<le> n)"
| "within_bounds ps v = True"

definition validate_value :: "(prop_type \<Rightarrow> json \<Rightarrow> json option) \<Rightarrow> prop_schema \<Rightarrow> json \<Rightarrow> json option" where
  "validate_value coerce ps v =
     (case typed coerce (ptype ps) v of
        None \<Rightarrow> None
      | Some v' \<Rightarrow> if within_bounds ps v' then Some v' else None)"

text \<open>The \<open>properties\<close> keyword: each member named in \<open>properties\<close> is validated against
  its schema and replaced by the coerced value; other members are left alone.\<close>

fun validate_members :: "(prop_type \<Rightarrow> json \<Rightarrow> json option) \<Rightarrow> (string \<times> prop_schema) list \<Rightarrow> (string \<times> json) list \<Rightarrow> (string \<times> json) list option" where
  "validate_members coerce props [] = Some []"
| "validate_members coerce props ((k, v) # kvs) =
     (case map_of props k of
        None \<Rightarrow> map_option (Cons (k, v)) (validate_members coerce props kvs)
      | Some ps \<Rightarrow>
          (case validate_value coerce ps v of
             None \<Rightarrow> None
           | Some v' \<Rightarrow> map_option (Cons (k, v')) (validate_members coerce props kvs)))"

text \<open>\<open>useDefaults\<close>: a property that has a \<open>default\<close> and is missing from the object is
  added with that value, before the keywords of the object (among them \<open>required\<close>) are
  checked.\<close>

fun assign_defaults :: "(string \<times> prop_schema) list \<Rightarrow> (string \<times> json) list \<Rightarrow> (string \<times> json) list" where
  "assign_defaults [] kvs = kvs"
| "assign_defaults ((k, ps) # props) kvs =
     (case default_value ps of
        None \<Rightarrow> assign_defaults props kvs
      | Some d \<Rightarrow>
          if k \<in> set (map fst kvs) then assign_defaults props kvs
          else assign_defaults props (kvs @ [(k, d)]))"

text \<open>A validation failure is an error with status 400.\<close>

definition validation_error :: js_error where
  "validation_error =
     \<lparr>code = Some ''FST_ERR_VALIDATION'', message = ''body does not match the schema'',
      statusCode = Some 400, status_prop = None\<rparr>"

text \<open>
  Validation of an object schema. Under \<open>additionalProperties: false\<close> a member that
  \<open>properties\<close> does not name fails the validation, unless \<open>removeAdditional\<close> is on:
  then the member is removed and the validation goes on. The result is the body as the
  validator leaves it.
\<close>

definition validate :: "ajv_options \<Rightarrow> object_schema \<Rightarrow> json \<Rightarrow> js_error + json" where
  "validate opts schema data =
     (case data of
        JObj kvs \<Rightarrow>
          (let kvs1 = (if useDefaults opts then assign_defaults (properties schema) kvs else kvs);
               known = (\<lambda>kv. fst kv \<in> set (map fst (properties schema)));
               closed = (\<not> additionalProperties schema)
           in if \<not> list_all (\<lambda>k. k \<in> set (map fst kvs1)) (required schema)
              then Inl validation_error
              else if closed \<and> \<not> removeAdditional opts \<and> \<not> list_all known kvs1
              then Inl validation_error
              else (case validate_members (coerceTypes opts) (properties schema)
                           (if closed \<and> removeAdditional opts then filter known kvs1 else kvs1) of
                      None \<Rightarrow> Inl validation_error
                    | Some kvs2 \<Rightarrow> Inr (JObj kvs2)))
      | _ \<Rightarrow> Inl validation_error)"

text \<open>The validated body as the handler reads it, \<open>request.body.name\<close>,
  \<open>request.body.price\<close> and \<open>request.body.description\<close>, under their static types.\<close>

fun typed_body :: "json \<Rightarrow> item_body option" where
  "typed_body (JObj kvs) =
     (case (map_of kvs ''name'', map_of kvs ''price'', map_of kvs ''description'') of
        (Some (JStr n), Some (JInt p), None) \<Rightarrow> Some \<lparr>name = n, price = p, description = None\<rparr>
      | (Some (JStr n), Some (JInt p), Some (JStr d)) \<Rightarrow>
          Some \<lparr>name = n, price = p, description = Some d\<rparr>
      | _ \<Rightarrow> None)"
| "typed_body v = None"

text \<open>
  The life of a \<open>POST /\<close> request: validation of the body, then the handler, which starts
  with the gate. A body that fails validation is answered with the validation error and the
  handler does not run. A validated body always has the static types
  (\<open>accepted_post_body\<close> below), so the \<open>None\<close> branch does not arise.
\<close>

definition post_item_lifecycle :: "ajv_options \<Rightarrow> ('db ctx, unit) io \<Rightarrow> 'db controllers \<Rightarrow> json \<Rightarrow> 'db ctx \<Rightarrow> 'db ctx" where
  "post_item_lifecycle opts gate ctl data s =
     (case validate opts post_body_schema data of
        Inl e \<Rightarrow> s\<lparr>reply := reply_send (PError e) (reply s)\<rparr>
      | Inr b \<Rightarrow>
          (case typed_body b of
             None \<Rightarrow> s
           | Some tb \<Rightarrow> serve (route_post_item gate ctl) (s\<lparr>request := (request s)\<lparr>body := tb\<rparr>\<rparr>)))"

text \<open>For stating what the validation of \<open>POST /\<close> does: the body with the default price
  assigned, and the members that \<open>properties\<close> names.\<close>

definition with_price :: "(string \<times> json) list \<Rightarrow> (string \<times> json) list" where
  "with_price kvs = (if ''price'' \<in> set (map fst kvs) then kvs else kvs @ [(''price'', JInt 0)])"

definition known_member :: "string \<times> json \<Rightarrow> bool" where
  "known_member kv \<longleftrightarrow> fst kv \<in> {''name'', ''price'', ''description''}"

text \<open>
  The requirements on a member as the specification words them: \<open>name\<close> a string of 3
  to 255 characters, \<open>price\<close> an integer of at least 0, \<open>description\<close> a string of at
  most 255 characters; and their violation by a value of the right type.
\<close>

fun well_formed_member :: "string \<times> json \<Rightarrow> bool" where
  "well_formed_member (k, v) =
     (if k = ''name'' then (case v of JStr n \<Rightarrow> 3 \<le> length n \<and> length n \<le> 255 | _ \<Rightarrow> False)
      else if k = ''price'' then (case v of JInt p \<Rightarrow> 0 \<le> p | _ \<Rightarrow> False)
      else if k = ''description'' then (case v of JStr d \<Rightarrow> length d \<le> 255 | _ \<Rightarrow> False)
      else True)"

fun out_of_bounds_member :: "string \<times> json \<Rightarrow> bool" where
  "out_of_bounds_member (k, v) =
     (if k = ''name'' then (case v of JStr n \<Rightarrow> length n < 3 \<or> 255 < length n | _ \<Rightarrow> False)
      else if k = ''price'' then (case v of JInt p \<Rightarrow> p < 0 | _ \<Rightarrow> False)
      else if k = ''description'' then (case v of JStr d \<Rightarrow> 255 < length d | _ \<Rightarrow> False)
      else False)"

section \<open>Example values\<close>

definition soup_body :: item_body where
  "soup_body = \<lparr>name = ''Soup'', price = 500, description = None\<rparr>"

definition alice :: user where
  "alice = \<lparr>user_id = 7, restaurant = Some \<lparr>restaurant_id = 1\<rparr>\<rparr>"

definition bob :: user where
  "bob = \<lparr>user_id = 8, restaurant = None\<rparr>"

definition example_request :: request where
  "example_request =
     \<lparr>token = Some ''t'', accept = None, user = NoUser, params_id = ''item000000000001'',
      body = soup_body\<rparr>"

definition expired_error :: js_error where
  "expired_error =
     \<lparr>code = Some ''FST_JWT_AUTHORIZATION_TOKEN_EXPIRED'',
      message = ''Authorization token expired'', statusCode = Some 401, status_prop = None\<rparr>"

text \<open>The plugin's error for a malformed \<open>Authorization\<close> header.\<close>

definition bad_request_error :: js_error where
  "bad_request_error =
     \<lparr>code = Some ''FST_JWT_BAD_REQUEST'',
      message = ''Format is Authorization: Bearer [token]'', statusCode = Some 400,
      status_prop = None\<rparr>"


text \<open>An item of restaurant 2 and an item of restaurant 1 under the same id in two stores.\<close>

definition foreign_store :: store where
  "foreign_store =
     [(''item000000000001'',
       \<lparr>name = ''Stew'', price = 700, description = None, restaurantId = 2,
        item_id = ''item000000000001''\<rparr>)]"

definition own_store :: store where
  "own_store =
     [(''item000000000001'',
       \<lparr>name = ''Stew'', price = 700, description = None, restaurantId = 1,
        item_id = ''item000000000001''\<rparr>)]"

text \<open>Two verifications that succeed, leaving the record of a user in \<open>request.user\<close>.\<close>

definition verified_alice :: "request \<Rightarrow> js_error + request" where
  "verified_alice req = Inr (req\<lparr>user := Resolved alice\<rparr>)"

definition verified_bob :: "request \<Rightarrow> js_error + request" where
  "verified_bob req = Inr (req\<lparr>user := Resolved bob\<rparr>)"

text \<open>A negotiation that knows exact media types only, and two parsers that accept one text each.\<close>

definition exact_match :: "string \<Rightarrow> string list \<Rightarrow> negotiated" where
  "exact_match h types = (if h \<in> set types then One h else NoMatch)"

definition one_json_text :: "string \<Rightarrow> js_error + json" where
  "one_json_text content =
     (if content = ''[1]'' then Inr (JArr [JInt 1])
      else Inl \<lparr>code = None, message = ''Unexpected token'', statusCode = None, status_prop = None\<rparr>)"

definition one_yaml_text :: "string \<Rightarrow> js_error + json" where
  "one_yaml_text content =
     (if content = ''- 1'' then Inr (JArr [JInt 1])
      else Inl \<lparr>code = None, message = ''unexpected end of the stream within a flow collection'', statusCode = None, status_prop = None\<rparr>)"

definition dev_env :: server_env where
  "dev_env = \<lparr>env_PROD = False, openAPIJson = ''{}'', openAPIYaml = ''openapi: 3.0.3''\<rparr>"

definition prod_env :: server_env where
  "prod_env = \<lparr>env_PROD = True, openAPIJson = [], openAPIYaml = []\<rparr>"

text \<open>A coercion table without entries, and a body with a member the schema does not name.\<close>

definition no_coercion :: "prop_type \<Rightarrow> json \<Rightarrow> json option" where
  "no_coercion t v = None"

definition soup_with_extra :: json where
  "soup_with_extra = JObj [(''name'', JStr ''Soup''), (''price'', JInt 500), (''extra'', JBool True)]"

section \<open>Basic facts about replies and awaiting\<close>

lemma set_error_status_at_least_400: "400 \<le> set_error_status e st"
  by (simp add: set_error_status_def Let_def split: option.splits)

lemma reply_send_error_unsent:
  "sent rep = None \<Longrightarrow>
   reply_send (PError e) (reply_code c rep) =
     rep\<lparr>status := set_error_status e c, hasStatusCode := True, sent := Some (PError e)\<rparr>"
  using set_error_status_at_least_400 [of e c]
  by (simp add: reply_send_def reply_code_def)

lemma authenticate_failure:
  assumes "jwtVerify (request s) = Inl err" and "sent (reply s) = None"
  shows "authenticate jwtVerify s =
           (Inr (), s\<lparr>reply := (reply s)\<lparr>status :=
                 set_error_status err
                   (if code err = Some ''FST_JWT_AUTHORIZATION_TOKEN_EXPIRED'' then 403 else 401),
               hasStatusCode := True, sent := Some (PError err)\<rparr>\<rparr>)"
  using assms by (simp add: authenticate_def reply_send_error_unsent)

lemma await_returns: "m s = (Inr a, s') \<Longrightarrow> await m f s = f a s'"
  by (simp add: await_def)

lemma await_throws: "m s = (Inl e, s') \<Longrightarrow> await m f s = (Inl e, s')"
  by (simp add: await_def)

lemma invoke_result: "f (db s) = (r, d) \<Longrightarrow> invoke c f s = (r, s\<lparr>db := d, calls := calls s @ [c]\<rparr>)"
  by (simp add: invoke_def)

lemma caller_restaurant_id_Some:
  "restaurant_of (user (request s)) = Inr (Some r) \<Longrightarrow> caller_restaurant_id s = (Inr (restaurant_id r), s)"
  by (simp add: caller_restaurant_id_def)

lemma authenticate_passes:
  "jwtVerify (request s) = Inr req \<Longrightarrow> authenticate jwtVerify s = (Inr (), s\<lparr>request := req\<rparr>)"
  by (simp add: authenticate_def)

lemma gate_no_restaurant:
  assumes "jwtVerify (request s) = Inr req" and "restaurant_of (user req) = Inr None"
  shows "authenticateWithRestaurant jwtVerify s = (Inl (APIError no_restaurant_message 403), s\<lparr>request := req\<rparr>)"
  using assms by (simp add: authenticateWithRestaurant_def await_def authenticate_passes)

lemma gate_with_restaurant:
  assumes "jwtVerify (request s) = Inr req" and "restaurant_of (user req) = Inr (Some r)"
  shows "authenticateWithRestaurant jwtVerify s = (Inr (), s\<lparr>request := req\<rparr>)"
  using assms by (simp add: authenticateWithRestaurant_def await_def authenticate_passes)

lemma store_persists: "persists (store_controllers newId)"
  by (simp add: persists_def store_controllers_def Let_def)

section \<open>The base gate on a failed verification\<close>

text \<open>
  C1. The claim is that a failed verification is answered with 403 when the token is
  expired and with 401 otherwise, and with nothing else. \<open>authenticate\<close> sets these
  statuses with \<open>reply.code\<close>, but it then sends the plugin's error object, and the
  framework's error handler lets the error's own \<open>statusCode\<close> win. The plugin's error
  for an expired token carries 401, so the answer is 401 and not 403; its error for a
  malformed \<open>Authorization\<close> header carries 400, so the answer is 400, a third status.
\<close>

theorem authenticate_expired_token_status:
  "authenticate (\<lambda>_. Inl expired_error) (start example_request ()) =
     (Inr (), (start example_request ())\<lparr>reply :=
        \<lparr>status = 401, hasStatusCode = True, contentType = None,
         sent = Some (PError expired_error)\<rparr>\<rparr>)
   \<and> authenticate (\<lambda>_. Inl bad_request_error) (start example_request ()) =
     (Inr (), (start example_request ())\<lparr>reply :=
        \<lparr>status = 400, hasStatusCode = True, contentType = None,
         sent = Some (PError bad_request_error)\<rparr>\<rparr>)"
proof -
  have u: "sent (reply (start example_request ())) = None"
    by (simp add: start_def fresh_reply_def)
  have a: "(\<lambda>_. Inl expired_error) (request (start example_request ())) = Inl expired_error"
    and b: "(\<lambda>_. Inl bad_request_error) (request (start example_request ())) = Inl bad_request_error"
    by simp_all
  from authenticate_failure [OF a u] authenticate_failure [OF b u]
  show ?thesis
    by (simp add: start_def fresh_reply_def set_error_status_def expired_error_def
        bad_request_error_def)
qed




section \<open>Ownership, the restaurant gate and the round trip\<close>

text \<open>
  C2. After the gate has let the request through and \<open>itemControl.get\<close> has returned the
  item: when the item's \<open>restaurantId\<close> differs from the caller's restaurant id,
  \<open>GET /:id\<close> and \<open>DELETE /:id\<close> throw the \<open>APIError\<close> with status 403, the only
  persistence call made is the \<open>get\<close>, and the persisted state is the one \<open>get\<close> left;
  when the ids agree, \<open>DELETE /:id\<close> calls \<open>itemControl.del\<close> and sends the plain
  confirmation message.
\<close>

theorem ownership_check:
  assumes gate: "gate s = (Inr (), s')"
      and fetched: "get ctl (params_id (request s')) (db s') = (Inr it, d')"
      and caller: "restaurant_of (user (request s')) = Inr (Some r)"
  shows "(restaurantId it \<noteq> restaurant_id r \<longrightarrow>
            route_get_item gate ctl s =
              (Inl (APIError no_access_message 403),
               s'\<lparr>db := d', calls := calls s' @ [CallGet (params_id (request s'))]\<rparr>)
          \<and> route_delete_item gate ctl s =
              (Inl (APIError no_access_message 403),
               s'\<lparr>db := d', calls := calls s' @ [CallGet (params_id (request s'))]\<rparr>)
          \<and> statusCode (APIError no_access_message 403) = Some 403)
       \<and> (restaurantId it = restaurant_id r \<longrightarrow>
            del ctl (params_id (request s')) d' = (Inr (), d'') \<longrightarrow>
            route_delete_item gate ctl s =
              (Inr (),
               s'\<lparr>reply := reply_send (PText ''Item deleted successfully'') (reply s'),
                  db := d'',
                  calls := calls s' @ [CallGet (params_id (request s')),
                                       CallDel (params_id (request s'))]\<rparr>))"
  using assms
  by (simp add: route_get_item_def route_delete_item_def await_def invoke_def
      caller_restaurant_id_def throw_def send_def APIError_def Let_def)

theorem ownership_check_witness:
  "route_get_item (authenticateWithRestaurant verified_alice) (store_controllers (\<lambda>_. ''item000000000002''))
      (start example_request foreign_store)
     = (Inl (APIError no_access_message 403),
        \<lparr>request = example_request\<lparr>user := Resolved alice\<rparr>, reply = fresh_reply,
         db = foreign_store, calls = [CallGet ''item000000000001'']\<rparr>)
   \<and> route_delete_item (authenticateWithRestaurant verified_alice) (store_controllers (\<lambda>_. ''item000000000002''))
      (start example_request foreign_store)
     = (Inl (APIError no_access_message 403),
        \<lparr>request = example_request\<lparr>user := Resolved alice\<rparr>, reply = fresh_reply,
         db = foreign_store, calls = [CallGet ''item000000000001'']\<rparr>)
   \<and> route_delete_item (authenticateWithRestaurant verified_alice) (store_controllers (\<lambda>_. ''item000000000002''))
      (start example_request own_store)
     = (Inr (),
        \<lparr>request = example_request\<lparr>user := Resolved alice\<rparr>,
         reply = fresh_reply\<lparr>sent := Some (PText ''Item deleted successfully'')\<rparr>,
         db = [], calls = [CallGet ''item000000000001'', CallDel ''item000000000001'']\<rparr>)"
proof -
  let ?ctl = "store_controllers (\<lambda>_. ''item000000000002'')"
  let ?rq = "example_request\<lparr>user := Resolved alice\<rparr>"
  have g: "authenticateWithRestaurant verified_alice (start example_request d) =
      (Inr (), \<lparr>request = ?rq, reply = fresh_reply, db = d, calls = []\<rparr>)" for d :: store
    using gate_with_restaurant [of verified_alice "start example_request d" ?rq "\<lparr>restaurant_id = 1\<rparr>"]
    by (simp add: verified_alice_def start_def alice_def)
  have c: "restaurant_of (user (request \<lparr>request = ?rq, reply = fresh_reply, db = d, calls = []\<rparr>))
      = Inr (Some \<lparr>restaurant_id = 1\<rparr>)" for d :: store
    by (simp add: alice_def)
  have f1: "get ?ctl (params_id (request \<lparr>request = ?rq, reply = fresh_reply, db = foreign_store, calls = []\<rparr>))
       (db \<lparr>request = ?rq, reply = fresh_reply, db = foreign_store, calls = []\<rparr>)
      = (Inr (snd (hd foreign_store)), foreign_store)"
    by (simp add: store_controllers_def example_request_def foreign_store_def)
  have f2: "get ?ctl (params_id (request \<lparr>request = ?rq, reply = fresh_reply, db = own_store, calls = []\<rparr>))
       (db \<lparr>request = ?rq, reply = fresh_reply, db = own_store, calls = []\<rparr>)
      = (Inr (snd (hd own_store)), own_store)"
    by (simp add: store_controllers_def example_request_def own_store_def)
  have d: "del ?ctl ''item000000000001'' own_store = (Inr (), [])"
    by (simp add: store_controllers_def own_store_def)
  note t = ownership_check [where gate = "authenticateWithRestaurant verified_alice" and ctl = ?ctl and d'' = "[]"]
  from t [where s = "start example_request foreign_store", OF g f1 c]
    t [where s = "start example_request own_store", OF g f2 c] d
  show ?thesis
    by (simp add: foreign_store_def own_store_def example_request_def reply_send_def fresh_reply_def)
qed

text \<open>
  C3. When the token verification succeeds and \<open>request.user.restaurant\<close> is null, each
  of the six item routes, run behind \<open>authenticateWithRestaurant\<close>, throws the 403 error
  with its message; the response has status 403 and that error as payload; no persistence
  operation has been invoked and the persisted state is untouched.
\<close>

theorem no_restaurant_forbidden:
  assumes "jwtVerify req = Inr req'" and "restaurant_of (user req') = Inr None"
  shows "\<forall>h \<in> set (item_routes (authenticateWithRestaurant jwtVerify) ctl).
           h (start req d) = (Inl (APIError no_restaurant_message 403), start req' d)
         \<and> serve h (start req d) =
             (start req' d)\<lparr>reply := fresh_reply\<lparr>status := 403,
                sent := Some (PError (APIError no_restaurant_message 403))\<rparr>\<rparr>
         \<and> calls (serve h (start req d)) = [] \<and> db (serve h (start req d)) = d"
proof -
  have g: "authenticateWithRestaurant jwtVerify (start req d) =
      (Inl (APIError no_restaurant_message 403), start req' d)"
    using gate_no_restaurant [of jwtVerify "start req d" req'] assms by (simp add: start_def)
  have s: "reply_send (PError (APIError no_restaurant_message 403)) fresh_reply =
      fresh_reply\<lparr>status := 403, sent := Some (PError (APIError no_restaurant_message 403))\<rparr>"
    by (simp add: reply_send_def fresh_reply_def error_status_def APIError_def)
  show ?thesis
  proof (intro ballI)
    fix h assume "h \<in> set (item_routes (authenticateWithRestaurant jwtVerify) ctl)"
    with g have h: "h (start req d) = (Inl (APIError no_restaurant_message 403), start req' d)"
      by (auto simp add: item_routes_def route_get_items_def route_get_item_def
          route_post_item_def route_delete_item_def route_best_seller_def route_worst_seller_def
          await_throws)
    have "serve h (start req d) =
        (start req' d)\<lparr>reply := reply_send (PError (APIError no_restaurant_message 403)) fresh_reply\<rparr>"
      by (simp add: serve_def h) (simp add: start_def)
    with h s show "h (start req d) = (Inl (APIError no_restaurant_message 403), start req' d)
         \<and> serve h (start req d) =
             (start req' d)\<lparr>reply := fresh_reply\<lparr>status := 403,
                sent := Some (PError (APIError no_restaurant_message 403))\<rparr>\<rparr>
         \<and> calls (serve h (start req d)) = [] \<and> db (serve h (start req d)) = d"
      by (simp add: start_def)
  qed
qed

theorem no_restaurant_forbidden_witness:
  "serve (route_get_items (authenticateWithRestaurant verified_bob) (store_controllers (\<lambda>_. ''item000000000002'')))
      (start example_request own_store)
     = \<lparr>request = example_request\<lparr>user := Resolved bob\<rparr>,
        reply = \<lparr>status = 403, hasStatusCode = False, contentType = None,
                 sent = Some (PError (APIError no_restaurant_message 403))\<rparr>,
        db = own_store, calls = []\<rparr>
   \<and> serve (route_delete_item (authenticateWithRestaurant verified_bob) (store_controllers (\<lambda>_. ''item000000000002'')))
      (start example_request own_store)
     = \<lparr>request = example_request\<lparr>user := Resolved bob\<rparr>,
        reply = \<lparr>status = 403, hasStatusCode = False, contentType = None,
                 sent = Some (PError (APIError no_restaurant_message 403))\<rparr>,
        db = own_store, calls = []\<rparr>"
proof -
  let ?ctl = "store_controllers (\<lambda>_. ''item000000000002'')"
  have v: "verified_bob example_request = Inr (example_request\<lparr>user := Resolved bob\<rparr>)"
    by (simp add: verified_bob_def)
  have n: "restaurant_of (user (example_request\<lparr>user := Resolved bob\<rparr>)) = Inr None"
    by (simp add: bob_def)
  note t = no_restaurant_forbidden [where jwtVerify = verified_bob and req = example_request
      and ctl = ?ctl and d = own_store, OF v n]
  have "route_get_items (authenticateWithRestaurant verified_bob) ?ctl
          \<in> set (item_routes (authenticateWithRestaurant verified_bob) ?ctl)"
    and "route_delete_item (authenticateWithRestaurant verified_bob) ?ctl
          \<in> set (item_routes (authenticateWithRestaurant verified_bob) ?ctl)"
    by (simp_all add: item_routes_def)
  from t [rule_format, OF this(1)] t [rule_format, OF this(2)]
  show ?thesis by (simp add: start_def fresh_reply_def)
qed

text \<open>
  C4. \<open>POST /\<close> with a body of name \<open>n\<close>, price \<open>p\<close> and no description calls
  \<open>itemControl.create\<close> with these fields and the caller's restaurant id, then
  \<open>itemControl.get\<close> on the id returned, and sends what that \<open>get\<close> returned. Over a
  persistence layer that satisfies \<open>persists\<close>, a following \<open>GET /:id\<close> on that id by
  a caller of the same restaurant sends the item with name \<open>n\<close>, price \<open>p\<close> and no
  description.
\<close>

theorem post_then_get_round_trip:
  assumes "gate s = (Inr (), s')"
      and "restaurant_of (user (request s')) = Inr (Some r)"
      and "body (request s') = \<lparr>name = n, price = p, description = None\<rparr>"
      and "create ctl \<lparr>name = n, price = p, description = None, restaurantId = restaurant_id r\<rparr>
             (db s') = (Inr i, d')"
      and "get ctl i d' = (Inr it, d'')"
  shows "route_post_item gate ctl s =
           (Inr (), s'\<lparr>reply := reply_send (PItem it) (reply s'), db := d'',
               calls := calls s' @
                 [CallCreate \<lparr>name = n, price = p, description = None,
                    restaurantId = restaurant_id r\<rparr>, CallGet i]\<rparr>)
       \<and> (persists ctl \<longrightarrow> gate' t = (Inr (), t') \<longrightarrow> db t' = d'' \<longrightarrow>
            params_id (request t') = i \<longrightarrow> restaurant_of (user (request t')) = Inr (Some r) \<longrightarrow>
            route_get_item gate' ctl t =
              (Inr (), t'\<lparr>reply := reply_send
                   (PItem \<lparr>name = n, price = p, description = None,
                      restaurantId = restaurant_id r, item_id = i\<rparr>) (reply t'),
                 db := d'', calls := calls t' @ [CallGet i]\<rparr>))"
proof -
  let ?f = "\<lparr>name = n, price = p, description = None, restaurantId = restaurant_id r\<rparr>"
  have post: "route_post_item gate ctl s =
           (Inr (), s'\<lparr>reply := reply_send (PItem it) (reply s'), db := d'',
               calls := calls s' @ [CallCreate ?f, CallGet i]\<rparr>)"
    using assms
    by (simp add: route_post_item_def await_def invoke_def caller_restaurant_id_def send_def Let_def)
  have get: "route_get_item gate' ctl t =
              (Inr (), t'\<lparr>reply := reply_send (PItem (stored ?f i)) (reply t'),
                 db := d'', calls := calls t' @ [CallGet i]\<rparr>)"
    if p: "persists ctl" and g: "gate' t = (Inr (), t')" and d: "db t' = d''"
      and i: "params_id (request t') = i" and c: "restaurant_of (user (request t')) = Inr (Some r)"
  proof -
    from p assms(4) have g2: "get ctl i d' = (Inr (stored ?f i), d')"
      unfolding persists_def by blast
    with assms(5) have "d'' = d'" by simp
    with g2 d have "get ctl (params_id (request t')) (db t') = (Inr (stored ?f i), d'')"
      using i by simp
    then show ?thesis using g c i d
      by (simp add: route_get_item_def await_def invoke_def caller_restaurant_id_def send_def
          Let_def stored_def)
  qed
  show ?thesis using post get by (simp add: stored_def)
qed

theorem post_then_get_round_trip_witness:
  "route_post_item (authenticateWithRestaurant verified_alice) (store_controllers (\<lambda>_. ''item000000000002''))
      (start example_request [])
     = (Inr (),
        \<lparr>request = example_request\<lparr>user := Resolved alice\<rparr>,
         reply = fresh_reply\<lparr>sent := Some (PItem
            \<lparr>name = ''Soup'', price = 500, description = None, restaurantId = 1,
             item_id = ''item000000000002''\<rparr>)\<rparr>,
         db = [(''item000000000002'',
            \<lparr>name = ''Soup'', price = 500, description = None, restaurantId = 1,
             item_id = ''item000000000002''\<rparr>)],
         calls = [CallCreate \<lparr>name = ''Soup'', price = 500, description = None, restaurantId = 1\<rparr>,
                  CallGet ''item000000000002'']\<rparr>)
   \<and> route_get_item (authenticateWithRestaurant verified_alice) (store_controllers (\<lambda>_. ''item000000000002''))
      (start (example_request\<lparr>params_id := ''item000000000002''\<rparr>)
         [(''item000000000002'',
            \<lparr>name = ''Soup'', price = 500, description = None, restaurantId = 1,
             item_id = ''item000000000002''\<rparr>)])
     = (Inr (),
        \<lparr>request = example_request\<lparr>user := Resolved alice, params_id := ''item000000000002''\<rparr>,
         reply = fresh_reply\<lparr>sent := Some (PItem
            \<lparr>name = ''Soup'', price = 500, description = None, restaurantId = 1,
             item_id = ''item000000000002''\<rparr>)\<rparr>,
         db = [(''item000000000002'',
            \<lparr>name = ''Soup'', price = 500, description = None, restaurantId = 1,
             item_id = ''item000000000002''\<rparr>)],
         calls = [CallGet ''item000000000002'']\<rparr>)"
proof -
  let ?ctl = "store_controllers (\<lambda>_. ''item000000000002'')"
  let ?it = "\<lparr>name = ''Soup'', price = 500, description = None, restaurantId = 1,
             item_id = ''item000000000002''\<rparr>"
  let ?rq = "example_request\<lparr>user := Resolved alice\<rparr>"
  let ?rq2 = "example_request\<lparr>user := Resolved alice, params_id := ''item000000000002''\<rparr>"
  let ?s' = "\<lparr>request = ?rq, reply = fresh_reply, db = [], calls = []\<rparr> :: store ctx"
  let ?t' = "\<lparr>request = ?rq2, reply = fresh_reply, db = [(''item000000000002'', ?it)], calls = []\<rparr> :: store ctx"
  have g1: "authenticateWithRestaurant verified_alice (start example_request []) = (Inr (), ?s')"
    using gate_with_restaurant [of verified_alice "start example_request []" ?rq "\<lparr>restaurant_id = 1\<rparr>"]
    by (simp add: verified_alice_def start_def alice_def)
  have g2: "authenticateWithRestaurant verified_alice
      (start (example_request\<lparr>params_id := ''item000000000002''\<rparr>) [(''item000000000002'', ?it)])
       = (Inr (), ?t')"
    using gate_with_restaurant [of verified_alice
        "start (example_request\<lparr>params_id := ''item000000000002''\<rparr>) [(''item000000000002'', ?it)]"
        ?rq2 "\<lparr>restaurant_id = 1\<rparr>"]
    by (simp add: verified_alice_def start_def alice_def)
  have c1: "restaurant_of (user (request ?s')) = Inr (Some \<lparr>restaurant_id = 1\<rparr>)"
    by (simp add: alice_def)
  have c2: "restaurant_of (user (request ?t')) = Inr (Some \<lparr>restaurant_id = 1\<rparr>)"
    by (simp add: alice_def)
  have b: "body (request ?s') = \<lparr>name = ''Soup'', price = 500, description = None\<rparr>"
    by (simp add: example_request_def soup_body_def)
  have cr: "create ?ctl \<lparr>name = ''Soup'', price = 500, description = None,
        restaurantId = restaurant_id \<lparr>restaurant_id = 1\<rparr>\<rparr> (db ?s')
      = (Inr ''item000000000002'', [(''item000000000002'', ?it)])"
    by (simp add: store_controllers_def stored_def Let_def)
  have ge: "get ?ctl ''item000000000002'' [(''item000000000002'', ?it)]
      = (Inr ?it, [(''item000000000002'', ?it)])"
    by (simp add: store_controllers_def)
  note t = post_then_get_round_trip [where gate = "authenticateWithRestaurant verified_alice"
      and gate' = "authenticateWithRestaurant verified_alice"
      and s = "start example_request []" and t' = ?t'
      and t = "start (example_request\<lparr>params_id := ''item000000000002''\<rparr>) [(''item000000000002'', ?it)]",
      OF g1 c1 b cr ge]
  from t g2 c2 store_persists [of "\<lambda>_. ''item000000000002''"]
  show ?thesis
    by (simp add: reply_send_def fresh_reply_def)
qed

section \<open>The document routes and the YAML parser\<close>

text \<open>
  C6. The type that \<open>GET /openapi\<close> selects from the list \<open>application/json\<close>,
  \<open>application/yaml\<close>, \<open>text/yaml\<close>, \<open>text/yml\<close>: without an \<open>Accept\<close> header and
  when the negotiation finds no match it is \<open>application/json\<close>; when the negotiation
  returns its best match among the list it is that match; when it returns a list it is the
  first entry. \<open>application/json\<close> selects the JSON document, each YAML type the YAML
  document.
\<close>

theorem openapi_content_negotiation:
  "(accept req = None \<longrightarrow> selected_type negotiate req = Some ''application/json'')
 \<and> (accept req = Some h \<longrightarrow> h \<noteq> [] \<longrightarrow> negotiate h openapi_supported_types = NoMatch \<longrightarrow>
       selected_type negotiate req = Some ''application/json'')
 \<and> (accept req = Some h \<longrightarrow> h \<noteq> [] \<longrightarrow> negotiate h openapi_supported_types = One t \<longrightarrow>
       t \<in> set openapi_supported_types \<longrightarrow> selected_type negotiate req = Some t)
 \<and> (accept req = Some h \<longrightarrow> h \<noteq> [] \<longrightarrow> negotiate h openapi_supported_types = Many (t # ts) \<longrightarrow>
       selected_type negotiate req = Some t)
 \<and> (selected_type negotiate req = Some ''application/json'' \<longrightarrow>
       openapi_handler negotiate env req rep =
         (if env_PROD env then reply_send (PFile ''/public/openapi.json'') rep
          else reply_send (PText (openAPIJson env)) (reply_type ''application/json'' rep)))
 \<and> (selected_type negotiate req = Some t \<longrightarrow> t \<in> {''application/yaml'', ''text/yaml'', ''text/yml''} \<longrightarrow>
       openapi_handler negotiate env req rep =
         (if env_PROD env then reply_send (PFile ''/public/openapi.yaml'') rep
          else reply_send (PText (openAPIYaml env)) (reply_type ''text/yaml'' rep)))"
  by (auto simp add: selected_type_def request_type_def openapi_supported_types_def openapi_handler_def)

theorem openapi_content_negotiation_witness:
  "selected_type exact_match example_request = Some ''application/json''
 \<and> selected_type exact_match (example_request\<lparr>accept := Some ''image/png''\<rparr>) = Some ''application/json''
 \<and> selected_type exact_match (example_request\<lparr>accept := Some ''text/yaml''\<rparr>) = Some ''text/yaml''
 \<and> selected_type (\<lambda>h types. Many [''text/yml'', ''application/json''])
       (example_request\<lparr>accept := Some ''text/*''\<rparr>) = Some ''text/yml''
 \<and> openapi_handler exact_match dev_env example_request fresh_reply
       = \<lparr>status = 200, hasStatusCode = False, contentType = Some ''application/json'', sent = Some (PText (openAPIJson dev_env))\<rparr>
 \<and> openapi_handler exact_match dev_env (example_request\<lparr>accept := Some ''text/yaml''\<rparr>) fresh_reply
       = \<lparr>status = 200, hasStatusCode = False, contentType = Some ''text/yaml'', sent = Some (PText (openAPIYaml dev_env))\<rparr>"
  using openapi_content_negotiation [where req = example_request and negotiate = exact_match
      and env = dev_env and rep = fresh_reply]
    openapi_content_negotiation [where req = "example_request\<lparr>accept := Some ''image/png''\<rparr>"
      and negotiate = exact_match and h = "''image/png''"]
    openapi_content_negotiation [where req = "example_request\<lparr>accept := Some ''text/yaml''\<rparr>"
      and negotiate = exact_match and h = "''text/yaml''" and t = "''text/yaml''"
      and env = dev_env and rep = fresh_reply]
    openapi_content_negotiation [where req = "example_request\<lparr>accept := Some ''text/*''\<rparr>"
      and negotiate = "\<lambda>h types. Many [''text/yml'', ''application/json'']" and h = "''text/*''"
      and t = "''text/yml''" and ts = "[''application/json'']"]
  by (simp add: example_request_def exact_match_def openapi_supported_types_def dev_env_def
      reply_send_def reply_type_def fresh_reply_def)

text \<open>
  C8. When \<open>GET /openapi\<close> selects \<open>application/json\<close>, its reply is the reply of
  \<open>GET /openapi/json\<close> to any request under the same module state, and so is the body
  served from the same files: outside production the string \<open>openAPIJson\<close>, in
  production the file \<open>/public/openapi.json\<close>.
\<close>

theorem openapi_json_same_body:
  assumes "selected_type negotiate req = Some ''application/json''"
  shows "openapi_handler negotiate env req rep = openapi_json_handler env req' rep
       \<and> served_body files (sent (openapi_handler negotiate env req rep))
           = served_body files (sent (openapi_json_handler env req' rep))
       \<and> (sent rep = None \<longrightarrow> \<not> env_PROD env \<longrightarrow>
            sent (openapi_handler negotiate env req rep) = Some (PText (openAPIJson env)))
       \<and> (sent rep = None \<longrightarrow> env_PROD env \<longrightarrow>
            sent (openapi_handler negotiate env req rep) = Some (PFile ''/public/openapi.json'')
          \<and> served_body files (sent (openapi_handler negotiate env req rep))
              = map_option PText (files ''/public/openapi.json''))"
  using assms
  by (simp add: openapi_handler_def openapi_json_handler_def reply_send_def reply_type_def)

theorem openapi_json_same_body_witness:
  "openapi_handler exact_match dev_env (example_request\<lparr>accept := Some ''application/json''\<rparr>) fresh_reply
     = openapi_json_handler dev_env example_request fresh_reply
   \<and> sent (openapi_handler exact_match dev_env (example_request\<lparr>accept := Some ''application/json''\<rparr>) fresh_reply)
     = Some (PText ''{}'')
   \<and> openapi_handler exact_match prod_env (example_request\<lparr>accept := Some ''application/json''\<rparr>) fresh_reply
     = openapi_json_handler prod_env example_request fresh_reply
   \<and> served_body (\<lambda>path. if path = ''/public/openapi.json'' then Some ''{}'' else None)
       (sent (openapi_handler exact_match prod_env (example_request\<lparr>accept := Some ''application/json''\<rparr>) fresh_reply))
     = Some (PText ''{}'')"
proof -
  let ?files = "\<lambda>path. if path = ''/public/openapi.json'' then Some ''{}'' else None"
  have a: "selected_type exact_match (example_request\<lparr>accept := Some ''application/json''\<rparr>)
      = Some ''application/json''"
    by (simp add: selected_type_def request_type_def exact_match_def openapi_supported_types_def)
  note d = openapi_json_same_body [OF a, where env = dev_env and rep = fresh_reply
      and req' = example_request and files = ?files]
  note p = openapi_json_same_body [OF a, where env = prod_env and rep = fresh_reply
      and req' = example_request and files = ?files]
  have u: "sent fresh_reply = None" by (simp add: fresh_reply_def)
  have e: "\<not> env_PROD dev_env" "env_PROD prod_env" "openAPIJson dev_env = ''{}''"
    by (simp_all add: dev_env_def prod_env_def)
  from d [THEN conjunct2, THEN conjunct2, THEN conjunct1] u e have d1: "sent (openapi_handler exact_match dev_env
      (example_request\<lparr>accept := Some ''application/json''\<rparr>) fresh_reply) = Some (PText ''{}'')"
    by simp
  from p [THEN conjunct2, THEN conjunct2, THEN conjunct2] u e have p1: "served_body ?files (sent (openapi_handler exact_match prod_env
      (example_request\<lparr>accept := Some ''application/json''\<rparr>) fresh_reply)) = Some (PText ''{}'')"
    by simp
  from d p d1 p1 show ?thesis by blast
qed

text \<open>
  C7. For each of the content types \<open>application/yaml\<close>, \<open>application/yml\<close>,
  \<open>text/yaml\<close>, \<open>text/yml\<close>: when \<open>YAML.load\<close> throws, the parser hands the error on
  with \<open>statusCode\<close> 400 and the response has status 400; when it returns a value, that
  value is the parsed body, unchanged, and it is the body a JSON text with the same value
  gives.
\<close>

theorem yaml_parse_failure_is_client_error:
  assumes "ct \<in> set yaml_content_types"
  shows "(YAML_load content = Inl err \<longrightarrow>
            parse_body JSON_parse YAML_load other ct content = Inl (err\<lparr>statusCode := Some 400\<rparr>)
          \<and> map_option status (body_parse_response (parse_body JSON_parse YAML_load other ct content)) = Some 400)
       \<and> (YAML_load content = Inr v \<longrightarrow>
            parse_body JSON_parse YAML_load other ct content = Inr v
          \<and> body_parse_response (parse_body JSON_parse YAML_load other ct content) = None
          \<and> (JSON_parse content' = Inr v \<longrightarrow>
               parse_body JSON_parse YAML_load other ''application/json'' content'
                 = parse_body JSON_parse YAML_load other ct content))"
  using assms
  by (auto simp add: parse_body_def yaml_parser_def body_parse_response_def reply_send_def
      fresh_reply_def error_status_def yaml_content_types_def)

theorem yaml_parse_failure_is_client_error_witness:
  "map_option status (body_parse_response
      (parse_body one_json_text one_yaml_text (\<lambda>ct content. Inr JNull) ''text/yaml'' ''- [1'')) = Some 400
   \<and> parse_body one_json_text one_yaml_text (\<lambda>ct content. Inr JNull) ''text/yaml'' ''- 1''
      = Inr (JArr [JInt 1])
   \<and> parse_body one_json_text one_yaml_text (\<lambda>ct content. Inr JNull) ''application/json'' ''[1]''
      = parse_body one_json_text one_yaml_text (\<lambda>ct content. Inr JNull) ''text/yaml'' ''- 1''"
proof -
  have c: "''text/yaml'' \<in> set yaml_content_types"
    by (simp add: yaml_content_types_def)
  let ?err = "\<lparr>code = None, message = ''unexpected end of the stream within a flow collection'',
      statusCode = None, status_prop = None\<rparr>"
  have e1: "one_yaml_text ''- [1'' = Inl ?err"
    and e2: "one_yaml_text ''- 1'' = Inr (JArr [JInt 1])"
    and e3: "one_json_text ''[1]'' = Inr (JArr [JInt 1])"
    by (simp_all add: one_yaml_text_def one_json_text_def)
  note bad = yaml_parse_failure_is_client_error [where YAML_load = one_yaml_text
      and JSON_parse = one_json_text and content = "''- [1''" and other = "\<lambda>ct content. Inr JNull"
      and err = ?err, OF c]
  note good = yaml_parse_failure_is_client_error [where YAML_load = one_yaml_text
      and JSON_parse = one_json_text and content = "''- 1''" and other = "\<lambda>ct content. Inr JNull"
      and v = "JArr [JInt 1]" and content' = "''[1]''", OF c]
  from bad e1 good e2 e3 show ?thesis by blast
qed

section \<open>What the gate leaves in the request\<close>

lemma authenticate_attaches_deferred_lookup:
  assumes "verify (token (request s)) = Inr decoded"
  shows "authenticate (plugin_jwtVerify verify) s =
           (Inr (), s\<lparr>request := (request s)\<lparr>user := Deferred (payload_id decoded)\<rparr>\<rparr>)
       \<and> call_user userControl_get
            (user (request (snd (authenticate (plugin_jwtVerify verify) s))))
           = userControl_get (payload_id decoded)"
  using assms
  by (simp add: authenticate_def plugin_jwtVerify_def formatUser_def)


section \<open>Validation of the body of \<open>POST /\<close>\<close>

lemma validate_value_sound:
  "validate_value coerce ps v = Some v' \<Longrightarrow> has_type (ptype ps) v' \<and> within_bounds ps v'"
  by (auto simp add: validate_value_def typed_def split: option.splits if_splits)

lemma validate_value_well_typed:
  "has_type (ptype ps) v \<Longrightarrow> within_bounds ps v \<Longrightarrow> validate_value coerce ps v = Some v"
  by (simp add: validate_value_def typed_def)

lemma validate_value_out_of_bounds:
  "has_type (ptype ps) v \<Longrightarrow> \<not> within_bounds ps v \<Longrightarrow> validate_value coerce ps v = None"
  by (simp add: validate_value_def typed_def)

lemma validate_members_keys:
  "validate_members coerce props kvs = Some kvs' \<Longrightarrow> map fst kvs' = map fst kvs"
  by (induction kvs arbitrary: kvs') (auto split: option.splits)

lemma validate_members_sound:
  "validate_members coerce props kvs = Some kvs' \<Longrightarrow> (k, v') \<in> set kvs' \<Longrightarrow>
   map_of props k = Some ps \<Longrightarrow> has_type (ptype ps) v' \<and> within_bounds ps v'"
proof (induction kvs arbitrary: kvs')
  case Nil
  then show ?case by simp
next
  case (Cons kv kvs)
  obtain k0 v0 where kv: "kv = (k0, v0)" by (cases kv)
  show ?case
  proof (cases "map_of props k0")
    case None
    with Cons.prems kv obtain r where r: "validate_members coerce props kvs = Some r"
      and k': "kvs' = (k0, v0) # r" by auto
    with Cons.prems None have "(k, v') \<in> set r" by auto
    with Cons.IH r Cons.prems(3) show ?thesis by blast
  next
    case (Some ps0)
    with Cons.prems kv obtain w r where w: "validate_value coerce ps0 v0 = Some w"
      and r: "validate_members coerce props kvs = Some r" and k': "kvs' = (k0, w) # r"
      by (auto split: option.splits)
    from Cons.prems(2) k' consider "(k, v') = (k0, w)" | "(k, v') \<in> set r" by auto
    then show ?thesis
    proof cases
      case 1
      with Some Cons.prems(3) w show ?thesis using validate_value_sound by fastforce
    next
      case 2
      with Cons.IH r Cons.prems(3) show ?thesis by blast
    qed
  qed
qed

lemma validate_members_well_typed:
  "\<forall>kv \<in> set kvs. \<forall>ps. map_of props (fst kv) = Some ps \<longrightarrow>
       has_type (ptype ps) (snd kv) \<and> within_bounds ps (snd kv) \<Longrightarrow>
   validate_members coerce props kvs = Some kvs"
  by (induction kvs) (auto simp add: validate_value_well_typed split: option.splits)

lemma validate_members_rejects:
  "(k, v) \<in> set kvs \<Longrightarrow> map_of props k = Some ps \<Longrightarrow> validate_value coerce ps v = None \<Longrightarrow>
   validate_members coerce props kvs = None"
  by (induction kvs) (auto split: option.splits)

lemma post_defaults:
  "assign_defaults (properties post_body_schema) kvs =
     (if ''price'' \<in> set (map fst kvs) then kvs else kvs @ [(''price'', JInt 0)])"
  by (simp add: post_body_schema_def)

lemma validate_post_unfold:
  "validate (fastify_ajv_options coerce) post_body_schema (JObj kvs) =
     (if ''name'' \<in> set (map fst kvs)
      then (case validate_members coerce (properties post_body_schema)
                   (filter known_member (with_price kvs)) of
              None \<Rightarrow> Inl validation_error
            | Some kvs2 \<Rightarrow> Inr (JObj kvs2))
      else Inl validation_error)"
proof -
  have k: "(\<lambda>kv. fst kv \<in> set (map fst (properties post_body_schema))) = known_member"
    by (auto simp add: known_member_def post_body_schema_def)
  have r: "list_all (\<lambda>k. k \<in> set (map fst (with_price kvs))) (required post_body_schema)
      \<longleftrightarrow> ''name'' \<in> set (map fst kvs)"
    by (auto simp add: post_body_schema_def with_price_def)
  have a: "additionalProperties post_body_schema = False"
    by (simp add: post_body_schema_def)
  show ?thesis
    unfolding validate_def fastify_ajv_options_def
    by (simp add: post_defaults [unfolded with_price_def [symmetric]] with_price_def [symmetric]
        k r a Let_def del: set_map)
qed

lemma has_type_TString: "has_type TString v \<longleftrightarrow> (\<exists>n. v = JStr n)"
  by (cases v) simp_all

lemma has_type_TInteger: "has_type TInteger v \<longleftrightarrow> (\<exists>p. v = JInt p)"
  by (cases v) simp_all

lemma post_members_sound:
  assumes "validate_members coerce (properties post_body_schema) kvs = Some kvs'"
  shows "(map_of kvs' ''name'' = Some v \<longrightarrow> (\<exists>n. v = JStr n \<and> 3 \<le> length n \<and> length n \<le> 255))
       \<and> (map_of kvs' ''price'' = Some v \<longrightarrow> (\<exists>p. v = JInt p \<and> 0 \<le> p))
       \<and> (map_of kvs' ''description'' = Some v \<longrightarrow> (\<exists>d. v = JStr d \<and> length d \<le> 255))"
proof (intro conjI impI)
  assume "map_of kvs' ''name'' = Some v"
  then have "(''name'', v) \<in> set kvs'" by (rule map_of_SomeD)
  from validate_members_sound [OF assms this, of "\<lparr>ptype = TString, minLength = Some 3,
      maxLength = Some 255, minimum = None, default_value = None\<rparr>"]
  show "\<exists>n. v = JStr n \<and> 3 \<le> length n \<and> length n \<le> 255"
    by (auto simp add: post_body_schema_def has_type_TString)
next
  assume "map_of kvs' ''price'' = Some v"
  then have "(''price'', v) \<in> set kvs'" by (rule map_of_SomeD)
  from validate_members_sound [OF assms this, of "\<lparr>ptype = TInteger, minLength = None,
      maxLength = None, minimum = Some 0, default_value = Some (JInt 0)\<rparr>"]
  show "\<exists>p. v = JInt p \<and> 0 \<le> p"
    by (auto simp add: post_body_schema_def has_type_TInteger)
next
  assume "map_of kvs' ''description'' = Some v"
  then have "(''description'', v) \<in> set kvs'" by (rule map_of_SomeD)
  from validate_members_sound [OF assms this, of "\<lparr>ptype = TString, minLength = None,
      maxLength = Some 255, minimum = None, default_value = None\<rparr>"]
  show "\<exists>d. v = JStr d \<and> length d \<le> 255"
    by (auto simp add: post_body_schema_def has_type_TString)
qed

lemma with_price_has_price:
  "''price'' \<in> set (map fst (filter known_member (with_price kvs)))"
proof (cases "''price'' \<in> set (map fst kvs)")
  case True
  then obtain v where "(''price'', v) \<in> set kvs" by auto
  then have "(''price'', v) \<in> set (filter known_member (with_price kvs))"
    by (simp add: with_price_def known_member_def)
  then show ?thesis by force
next
  case False
  then have "(''price'', JInt 0) \<in> set (filter known_member (with_price kvs))"
    by (simp add: with_price_def known_member_def)
  then show ?thesis by force
qed

lemma with_price_has_name:
  assumes "''name'' \<in> set (map fst kvs)"
  shows "''name'' \<in> set (map fst (filter known_member (with_price kvs)))"
proof -
  from assms obtain v where "(''name'', v) \<in> set kvs" by auto
  then have "(''name'', v) \<in> set (filter known_member (with_price kvs))"
    by (simp add: with_price_def known_member_def)
  then show ?thesis by force
qed

lemma accepted_post_body:
  assumes "validate (fastify_ajv_options coerce) post_body_schema data = Inr b"
  shows "\<exists>kvs n p d. b = JObj kvs \<and> list_all known_member kvs
           \<and> typed_body b = Some \<lparr>name = n, price = p, description = d\<rparr>
           \<and> 3 \<le> length n \<and> length n \<le> 255 \<and> 0 \<le> p
           \<and> (case d of None \<Rightarrow> True | Some t \<Rightarrow> length t \<le> 255)"
proof -
  from assms obtain kvs0 where d: "data = JObj kvs0"
    by (cases data) (simp_all add: validate_def)
  let ?in = "filter known_member (with_price kvs0)"
  from assms d have nm: "''name'' \<in> set (map fst kvs0)"
    by (simp add: validate_post_unfold split: if_splits)
  with assms d obtain kvs where v: "validate_members coerce (properties post_body_schema) ?in = Some kvs"
    and b: "b = JObj kvs"
    by (auto simp add: validate_post_unfold split: option.splits)
  have keys: "map fst kvs = map fst ?in" using v by (rule validate_members_keys)
  have "\<forall>k \<in> set (map fst ?in). k \<in> {''name'', ''price'', ''description''}"
    by (auto simp add: known_member_def)
  with keys have "\<forall>k \<in> set (map fst kvs). k \<in> {''name'', ''price'', ''description''}"
    by simp
  then have known: "list_all known_member kvs"
    by (simp add: list_all_iff known_member_def)
  from with_price_has_name [OF nm] keys have "''name'' \<in> set (map fst kvs)" by simp
  then have "map_of kvs ''name'' \<noteq> None" by (simp add: map_of_eq_None_iff)
  then obtain vn where vn: "map_of kvs ''name'' = Some vn" by blast
  from with_price_has_price [of kvs0] keys have "''price'' \<in> set (map fst kvs)" by simp
  then have "map_of kvs ''price'' \<noteq> None" by (simp add: map_of_eq_None_iff)
  then obtain vp where vp: "map_of kvs ''price'' = Some vp" by blast
  from post_members_sound [OF v, of vn] vn obtain n where n: "vn = JStr n" "3 \<le> length n" "length n \<le> 255"
    by blast
  from post_members_sound [OF v, of vp] vp obtain p where p: "vp = JInt p" "0 \<le> p"
    by blast
  show ?thesis
  proof (cases "map_of kvs ''description''")
    case None
    with vn vp n p b known show ?thesis by simp
  next
    case (Some vd)
    with post_members_sound [OF v, of vd] obtain t where "vd = JStr t" "length t \<le> 255"
      by blast
    with Some vn vp n p b known show ?thesis by simp
  qed
qed

lemma well_formed_accepted:
  assumes "''name'' \<in> set (map fst kvs)" and "list_all well_formed_member kvs"
  shows "validate (fastify_ajv_options coerce) post_body_schema (JObj kvs)
           = Inr (JObj (filter known_member (with_price kvs)))"
proof -
  have "\<forall>kv \<in> set (filter known_member (with_price kvs)). \<forall>ps.
      map_of (properties post_body_schema) (fst kv) = Some ps \<longrightarrow>
        has_type (ptype ps) (snd kv) \<and> within_bounds ps (snd kv)"
  proof (intro ballI allI impI)
    fix kv ps
    assume m: "kv \<in> set (filter known_member (with_price kvs))"
      and ps: "map_of (properties post_body_schema) (fst kv) = Some ps"
    from m have "kv \<in> set kvs \<or> kv = (''price'', JInt 0)"
      by (auto simp add: with_price_def split: if_splits)
    then have "well_formed_member kv"
      using assms(2) by (auto simp add: list_all_iff)
    with ps show "has_type (ptype ps) (snd kv) \<and> within_bounds ps (snd kv)"
      by (cases kv) (auto simp add: post_body_schema_def split: if_splits json.splits)
  qed
  then have "validate_members coerce (properties post_body_schema)
      (filter known_member (with_price kvs)) = Some (filter known_member (with_price kvs))"
    by (rule validate_members_well_typed)
  with assms(1) show ?thesis by (simp add: validate_post_unfold)
qed

lemma out_of_bounds_rejected:
  assumes "kv \<in> set kvs" and "out_of_bounds_member kv"
  shows "validate (fastify_ajv_options coerce) post_body_schema (JObj kvs) = Inl validation_error"
proof -
  obtain k v where kv: "kv = (k, v)" by (cases kv)
  from assms(2) kv have kn: "known_member kv"
    by (auto simp add: known_member_def split: if_splits)
  with assms(1) have m: "(k, v) \<in> set (filter known_member (with_price kvs))"
    using kv by (auto simp add: with_price_def)
  from assms(2) kv obtain ps where ps: "map_of (properties post_body_schema) k = Some ps"
    and ty: "has_type (ptype ps) v" and nb: "\<not> within_bounds ps v"
    by (auto simp add: post_body_schema_def split: if_splits json.splits)
  from validate_members_rejects [OF m ps validate_value_out_of_bounds [OF ty nb]]
  show ?thesis by (simp add: validate_post_unfold)
qed

lemma rejection_is_400:
  "validate opts schema data = Inl e \<Longrightarrow> e = validation_error"
  by (auto simp add: validate_def Let_def split: json.splits if_splits option.splits)

lemma soup_with_extra_validated:
  "validate (fastify_ajv_options no_coercion) post_body_schema soup_with_extra
     = Inr (JObj [(''name'', JStr ''Soup''), (''price'', JInt 500)])"
  unfolding soup_with_extra_def validate_post_unfold
  by (simp add: known_member_def with_price_def post_body_schema_def validate_value_def typed_def)

text \<open>
  C5 (as amended). Under the validator options the server runs with, for every body of
  \<open>POST /\<close>: a body that fails validation is answered with the status-400 validation
  error and the handler, hence every persistence call, does not run; a body that passes
  reaches the handler with \<open>name\<close> a string of 3 to 255 characters, \<open>price\<close> an integer
  of at least 0, \<open>description\<close> absent or a string of at most 255 characters, and no
  other member. An object with a \<open>name\<close> whose \<open>name\<close>, \<open>price\<close> and \<open>description\<close>
  members meet these requirements passes: a missing \<open>price\<close> is set to the default 0 and
  members the schema does not name are removed. An object without \<open>name\<close> fails, and so
  does one with a \<open>name\<close>, \<open>price\<close> or \<open>description\<close> of the right type outside its
  bounds.
\<close>

theorem post_body_validation:
  "(validate (fastify_ajv_options coerce) post_body_schema data = Inl e \<longrightarrow>
      statusCode e = Some 400
    \<and> post_item_lifecycle (fastify_ajv_options coerce) gate ctl data s
        = s\<lparr>reply := reply_send (PError e) (reply s)\<rparr>)
 \<and> (validate (fastify_ajv_options coerce) post_body_schema data = Inr b \<longrightarrow>
      (\<exists>members n p d. b = JObj members \<and> list_all known_member members
         \<and> typed_body b = Some \<lparr>name = n, price = p, description = d\<rparr>
         \<and> 3 \<le> length n \<and> length n \<le> 255 \<and> 0 \<le> p
         \<and> (case d of None \<Rightarrow> True | Some t \<Rightarrow> length t \<le> 255)
         \<and> post_item_lifecycle (fastify_ajv_options coerce) gate ctl data s
             = serve (route_post_item gate ctl)
                 (s\<lparr>request := (request s)\<lparr>body := \<lparr>name = n, price = p, description = d\<rparr>\<rparr>\<rparr>)))
 \<and> (''name'' \<in> set (map fst kvs) \<longrightarrow> list_all well_formed_member kvs \<longrightarrow>
      validate (fastify_ajv_options coerce) post_body_schema (JObj kvs)
        = Inr (JObj (filter known_member (with_price kvs))))
 \<and> (''name'' \<notin> set (map fst kvs) \<longrightarrow>
      validate (fastify_ajv_options coerce) post_body_schema (JObj kvs) = Inl validation_error)
 \<and> (kv \<in> set kvs \<longrightarrow> out_of_bounds_member kv \<longrightarrow>
      validate (fastify_ajv_options coerce) post_body_schema (JObj kvs) = Inl validation_error)"
proof (intro conjI impI)
  assume r: "validate (fastify_ajv_options coerce) post_body_schema data = Inl e"
  then have "e = validation_error" by (rule rejection_is_400)
  then show "statusCode e = Some 400" by (simp add: validation_error_def)
  from r show "post_item_lifecycle (fastify_ajv_options coerce) gate ctl data s
        = s\<lparr>reply := reply_send (PError e) (reply s)\<rparr>"
    by (simp add: post_item_lifecycle_def)
next
  assume a: "validate (fastify_ajv_options coerce) post_body_schema data = Inr b"
  from accepted_post_body [OF a] obtain members n p d where
    m: "b = JObj members" "list_all known_member members"
      "typed_body b = Some \<lparr>name = n, price = p, description = d\<rparr>"
      "3 \<le> length n" "length n \<le> 255" "0 \<le> p"
      "case d of None \<Rightarrow> True | Some t \<Rightarrow> length t \<le> 255"
    by blast
  from a m(3) have "post_item_lifecycle (fastify_ajv_options coerce) gate ctl data s
             = serve (route_post_item gate ctl)
                 (s\<lparr>request := (request s)\<lparr>body := \<lparr>name = n, price = p, description = d\<rparr>\<rparr>\<rparr>)"
    by (simp add: post_item_lifecycle_def)
  with m show "\<exists>members n p d. b = JObj members \<and> list_all known_member members
         \<and> typed_body b = Some \<lparr>name = n, price = p, description = d\<rparr>
         \<and> 3 \<le> length n \<and> length n \<le> 255 \<and> 0 \<le> p
         \<and> (case d of None \<Rightarrow> True | Some t \<Rightarrow> length t \<le> 255)
         \<and> post_item_lifecycle (fastify_ajv_options coerce) gate ctl data s
             = serve (route_post_item gate ctl)
                 (s\<lparr>request := (request s)\<lparr>body := \<lparr>name = n, price = p, description = d\<rparr>\<rparr>\<rparr>)"
    by blast
next
  assume "''name'' \<in> set (map fst kvs)" and "list_all well_formed_member kvs"
  then show "validate (fastify_ajv_options coerce) post_body_schema (JObj kvs)
        = Inr (JObj (filter known_member (with_price kvs)))"
    by (rule well_formed_accepted)
next
  assume "''name'' \<notin> set (map fst kvs)"
  then show "validate (fastify_ajv_options coerce) post_body_schema (JObj kvs) = Inl validation_error"
    by (simp add: validate_post_unfold)
next
  assume "kv \<in> set kvs" and "out_of_bounds_member kv"
  then show "validate (fastify_ajv_options coerce) post_body_schema (JObj kvs) = Inl validation_error"
    by (rule out_of_bounds_rejected)
qed

theorem post_body_validation_witness:
  "post_item_lifecycle (fastify_ajv_options no_coercion) (authenticateWithRestaurant verified_alice)
        (store_controllers (\<lambda>_. ''item000000000002''))
        (JObj [(''name'', JStr ''So''), (''price'', JInt 500)]) (start example_request [])
     = (start example_request [])\<lparr>reply :=
          \<lparr>status = 400, hasStatusCode = False, contentType = None, sent = Some (PError validation_error)\<rparr>\<rparr>
   \<and> typed_body (JObj [(''name'', JStr ''Soup''), (''price'', JInt 500)])
       = Some \<lparr>name = ''Soup'', price = 500, description = None\<rparr>
   \<and> validate (fastify_ajv_options no_coercion) post_body_schema soup_with_extra
       = Inr (JObj [(''name'', JStr ''Soup''), (''price'', JInt 500)])
   \<and> validate (fastify_ajv_options no_coercion) post_body_schema (JObj [(''price'', JInt 500)])
       = Inl validation_error"
proof -
  let ?opts = "fastify_ajv_options no_coercion"
  let ?short = "[(''name'', JStr ''So''), (''price'', JInt 500)]"
  let ?extra = "[(''name'', JStr ''Soup''), (''price'', JInt 500), (''extra'', JBool True)]"
  have m: "(''name'', JStr ''So'') \<in> set ?short" and o: "out_of_bounds_member (''name'', JStr ''So'')"
    by simp_all
  from post_body_validation [where coerce = no_coercion and kvs = ?short
      and kv = "(''name'', JStr ''So'')",
      THEN conjunct2, THEN conjunct2, THEN conjunct2, THEN conjunct2, rule_format, OF m o]
  have r: "validate ?opts post_body_schema (JObj ?short) = Inl validation_error" .
  from post_body_validation [where coerce = no_coercion and data = "JObj ?short"
      and e = validation_error and gate = "authenticateWithRestaurant verified_alice"
      and ctl = "store_controllers (\<lambda>_. ''item000000000002'')" and s = "start example_request []",
      THEN conjunct1, rule_format, OF r]
  have c1: "post_item_lifecycle ?opts (authenticateWithRestaurant verified_alice)
        (store_controllers (\<lambda>_. ''item000000000002'')) (JObj ?short) (start example_request [])
     = (start example_request [])\<lparr>reply :=
          reply_send (PError validation_error) (reply (start example_request [] :: store ctx))\<rparr>"
    by (rule conjunct2)
  have w: "''name'' \<in> set (map fst ?extra)" and l: "list_all well_formed_member ?extra"
    by simp_all
  from post_body_validation [where coerce = no_coercion and kvs = ?extra,
      THEN conjunct2, THEN conjunct2, THEN conjunct1, rule_format, OF w l]
  have c3: "validate ?opts post_body_schema soup_with_extra
       = Inr (JObj (filter known_member (with_price ?extra)))"
    unfolding soup_with_extra_def .
  from post_body_validation [where coerce = no_coercion and data = soup_with_extra
      and b = "JObj (filter known_member (with_price ?extra))",
      THEN conjunct2, THEN conjunct1, rule_format, OF c3]
  have c2: "\<exists>n p d. typed_body (JObj (filter known_member (with_price ?extra)))
       = Some \<lparr>name = n, price = p, description = d\<rparr> \<and> 3 \<le> length n"
    by blast
  have n: "''name'' \<notin> set (map fst [(''price'', JInt 500)])" by simp
  from post_body_validation [where coerce = no_coercion and kvs = "[(''price'', JInt 500)]",
      THEN conjunct2, THEN conjunct2, THEN conjunct2, THEN conjunct1, rule_format, OF n]
  have c4: "validate ?opts post_body_schema (JObj [(''price'', JInt 500)]) = Inl validation_error" .
  have f: "filter known_member (with_price
           [(''name'', JStr ''Soup''), (''price'', JInt 500), (''extra'', JBool True)])
      = [(''name'', JStr ''Soup''), (''price'', JInt 500)]"
    by (simp add: known_member_def with_price_def)
  from c1 c2 c3 c4 show ?thesis
    by (simp add: f start_def reply_send_def fresh_reply_def error_status_def validation_error_def)
qed

text \<open>
  C5 as stated fails: a body with the unrecognized member \<open>extra\<close> is not rejected. It
  passes validation with \<open>extra\<close> removed, the handler runs and creates the item, and the
  response has status 200. A body without \<open>price\<close> passes as well, with price 0.
\<close>

theorem extra_field_not_rejected:
  "validate (fastify_ajv_options no_coercion) post_body_schema soup_with_extra
     = Inr (JObj [(''name'', JStr ''Soup''), (''price'', JInt 500)])
   \<and> validate (fastify_ajv_options no_coercion) post_body_schema (JObj [(''name'', JStr ''Soup'')])
     = Inr (JObj [(''name'', JStr ''Soup''), (''price'', JInt 0)])
   \<and> post_item_lifecycle (fastify_ajv_options no_coercion) (authenticateWithRestaurant verified_alice)
        (store_controllers (\<lambda>_. ''item000000000002'')) soup_with_extra (start example_request [])
     = \<lparr>request = example_request\<lparr>user := Resolved alice\<rparr>,
        reply = \<lparr>status = 200, hasStatusCode = False, contentType = None, sent = Some (PItem
            \<lparr>name = ''Soup'', price = 500, description = None, restaurantId = 1,
             item_id = ''item000000000002''\<rparr>)\<rparr>,
        db = [(''item000000000002'',
            \<lparr>name = ''Soup'', price = 500, description = None, restaurantId = 1,
             item_id = ''item000000000002''\<rparr>)],
        calls = [CallCreate \<lparr>name = ''Soup'', price = 500, description = None, restaurantId = 1\<rparr>,
                 CallGet ''item000000000002'']\<rparr>"
proof -
  have g: "authenticateWithRestaurant verified_alice
      (\<lparr>request = example_request, reply = fresh_reply, db = [], calls = []\<rparr> :: store ctx) =
      (Inr (), \<lparr>request = example_request\<lparr>user := Resolved alice\<rparr>, reply = fresh_reply,
          db = [], calls = []\<rparr>)"
    using gate_with_restaurant [of verified_alice
        "\<lparr>request = example_request, reply = fresh_reply, db = [], calls = []\<rparr> :: store ctx"
        "example_request\<lparr>user := Resolved alice\<rparr>" "\<lparr>restaurant_id = 1\<rparr>"]
    by (simp add: verified_alice_def alice_def)
  have b: "example_request\<lparr>body := \<lparr>name = ''Soup'', price = 500, description = None\<rparr>\<rparr> = example_request"
    by (simp add: example_request_def soup_body_def)
  have "post_item_lifecycle (fastify_ajv_options no_coercion) (authenticateWithRestaurant verified_alice)
        (store_controllers (\<lambda>_. ''item000000000002'')) soup_with_extra (start example_request [])
      = serve (route_post_item (authenticateWithRestaurant verified_alice)
           (store_controllers (\<lambda>_. ''item000000000002''))) (start example_request [])"
    by (simp add: post_item_lifecycle_def soup_with_extra_validated start_def b)
  also have "\<dots> = \<lparr>request = example_request\<lparr>user := Resolved alice\<rparr>,
        reply = \<lparr>status = 200, hasStatusCode = False, contentType = None, sent = Some (PItem
            \<lparr>name = ''Soup'', price = 500, description = None, restaurantId = 1,
             item_id = ''item000000000002''\<rparr>)\<rparr>,
        db = [(''item000000000002'',
            \<lparr>name = ''Soup'', price = 500, description = None, restaurantId = 1,
             item_id = ''item000000000002''\<rparr>)],
        calls = [CallCreate \<lparr>name = ''Soup'', price = 500, description = None, restaurantId = 1\<rparr>,
                 CallGet ''item000000000002'']\<rparr>"
    unfolding serve_def route_post_item_def await_def start_def g
    by (simp add: caller_restaurant_id_def alice_def invoke_def store_controllers_def stored_def
        send_def reply_send_def fresh_reply_def example_request_def soup_body_def Let_def)
  finally have l: "post_item_lifecycle (fastify_ajv_options no_coercion) (authenticateWithRestaurant verified_alice)
        (store_controllers (\<lambda>_. ''item000000000002'')) soup_with_extra (start example_request [])
     = \<lparr>request = example_request\<lparr>user := Resolved alice\<rparr>,
        reply = \<lparr>status = 200, hasStatusCode = False, contentType = None, sent = Some (PItem
            \<lparr>name = ''Soup'', price = 500, description = None, restaurantId = 1,
             item_id = ''item000000000002''\<rparr>)\<rparr>,
        db = [(''item000000000002'',
            \<lparr>name = ''Soup'', price = 500, description = None, restaurantId = 1,
             item_id = ''item000000000002''\<rparr>)],
        calls = [CallCreate \<lparr>name = ''Soup'', price = 500, description = None, restaurantId = 1\<rparr>,
                 CallGet ''item000000000002'']\<rparr>" .
  have d: "validate (fastify_ajv_options no_coercion) post_body_schema (JObj [(''name'', JStr ''Soup'')])
     = Inr (JObj [(''name'', JStr ''Soup''), (''price'', JInt 0)])"
    unfolding validate_post_unfold
    by (simp add: known_member_def with_price_def post_body_schema_def validate_value_def typed_def)
  from soup_with_extra_validated d l show ?thesis by blast
qed

end
